theory Spec2Isabelle
  imports Main "HOL-Library.Word"
begin

section \<open>Python values, exceptions and the library the server calls\<close>

text \<open>
  The server of \<^verbatim>\<open>src/sockets/server/server.py\<close> handles whatever \<^verbatim>\<open>json.loads\<close>
  returns and whatever a registered handler returns. Both are Python values:
  the JSON fragment, and \<open>PObject\<close> for any value outside it (a set, a file,
  an instance), which \<^verbatim>\<open>json.dumps\<close> refuses and which has neither \<^verbatim>\<open>.get\<close>
  nor item assignment. A float is kept as mantissa and exponent; only whether
  it is zero matters here. A dict keeps its insertion order.
\<close>

datatype pyval =
    PNone
  | PBool bool
  | PInt int
  | PFloat int int
  | PStr string
  | PList "pyval list"
  | PDict "(string \<times> pyval) list"
  | PObject string

text \<open>Python's truth value of an object, as \<^verbatim>\<open>if x:\<close> and \<^verbatim>\<open>not x\<close> test it.\<close>

fun truthy :: "pyval \<Rightarrow> bool" where
  "truthy PNone = False"
| "truthy (PBool b) = b"
| "truthy (PInt i) = (i \<noteq> 0)"
| "truthy (PFloat m e) = (m \<noteq> 0)"
| "truthy (PStr s) = (s \<noteq> [])"
| "truthy (PList xs) = (xs \<noteq> [])"
| "truthy (PDict kvs) = (kvs \<noteq> [])"
| "truthy (PObject n) = True"

text \<open>
  The exception classes the server's \<^verbatim>\<open>except\<close> clauses tell apart, each with
  the text \<^verbatim>\<open>str(e)\<close> gives. \<open>SocketTimeout\<close> is \<^verbatim>\<open>socket.timeout\<close>, \<open>OSError\<close> is
  \<^verbatim>\<open>socket.error\<close>, \<open>OtherException\<close> is any other subclass of \<^verbatim>\<open>Exception\<close>.
\<close>

datatype pyexn =
    JSONDecodeError string
  | UnicodeDecodeError string
  | TypeError string
  | AttributeError string
  | SocketTimeout
  | OSError string
  | OtherException string

fun str_exn :: "pyexn \<Rightarrow> string" where
  "str_exn (JSONDecodeError d) = d"
| "str_exn (UnicodeDecodeError d) = d"
| "str_exn (TypeError d) = d"
| "str_exn (AttributeError d) = d"
| "str_exn SocketTimeout = ''timed out''"
| "str_exn (OSError d) = d"
| "str_exn (OtherException d) = d"

text \<open>
  Where the interpreter itself raises, the wording of the message is its own.
  The places are: \<^verbatim>\<open>.get\<close> on a value without that attribute, a dict lookup
  with an unhashable key, \<^verbatim>\<open>f(*args)\<close> with \<^verbatim>\<open>args\<close> not iterable or with more
  arguments than \<^verbatim>\<open>f\<close> takes, item assignment on a value without it,
  \<^verbatim>\<open>json.dumps\<close> on a value it cannot serialise, and \<^verbatim>\<open>bytes.decode\<close> on bytes
  that are not UTF-8.
\<close>

datatype fault =
  NoGetAttr | Unhashable | NotIterable | BadArity | NoItemAssign | NotSerializable | BadUtf8

type_synonym byte = "8 word"

text \<open>
  The parts of Python the server calls and this repository does not define:
  \<^verbatim>\<open>json.loads\<close> on the text that UTF-8 bytes encode, \<^verbatim>\<open>repr\<close>, and the
  interpreter's messages.
\<close>

record pylib =
  json_loads :: "byte list \<Rightarrow> pyexn + pyval"
  py_repr :: "pyval \<Rightarrow> string"
  py_detail :: "fault \<Rightarrow> pyval \<Rightarrow> string"

text \<open>\<^verbatim>\<open>str(x)\<close>: a string is itself, every other value prints as its \<^verbatim>\<open>repr\<close>.\<close>

fun py_str :: "pylib \<Rightarrow> pyval \<Rightarrow> string" where
  "py_str py (PStr s) = s"
| "py_str py v = py_repr py v"

definition sq :: string where
  "sq = [CHR 0x27]"

subsection \<open>Decoding the request bytes\<close>

text \<open>
  \<^verbatim>\<open>data.decode('utf-8')\<close> is strict: it accepts exactly the well-formed UTF-8
  sequences (no overlong form, no surrogate, nothing above U+10FFFF) and raises
  \<^verbatim>\<open>UnicodeDecodeError\<close> otherwise.
\<close>

definition cont_byte :: "nat \<Rightarrow> bool" where
  "cont_byte b = (0x80 \<le> b \<and> b \<le> 0xBF)"

fun utf8_ok :: "nat list \<Rightarrow> bool" where
  "utf8_ok [] = True"
| "utf8_ok (b # bs) =
     (if b < 0x80 then utf8_ok bs
      else if 0xC2 \<le> b \<and> b \<le> 0xDF then
        (case bs of c1 # r \<Rightarrow> cont_byte c1 \<and> utf8_ok r | _ \<Rightarrow> False)
      else if 0xE0 \<le> b \<and> b \<le> 0xEF then
        (case bs of c1 # c2 # r \<Rightarrow>
           (if b = 0xE0 then 0xA0 \<le> c1 \<and> c1 \<le> 0xBF
            else if b = 0xED then 0x80 \<le> c1 \<and> c1 \<le> 0x9F
            else cont_byte c1) \<and> cont_byte c2 \<and> utf8_ok r
         | _ \<Rightarrow> False)
      else if 0xF0 \<le> b \<and> b \<le> 0xF4 then
        (case bs of c1 # c2 # c3 # r \<Rightarrow>
           (if b = 0xF0 then 0x90 \<le> c1 \<and> c1 \<le> 0xBF
            else if b = 0xF4 then 0x80 \<le> c1 \<and> c1 \<le> 0x8F
            else cont_byte c1) \<and> cont_byte c2 \<and> cont_byte c3 \<and> utf8_ok r
         | _ \<Rightarrow> False)
      else False)"

definition valid_utf8 :: "byte list \<Rightarrow> bool" where
  "valid_utf8 data = utf8_ok (map unat data)"

text \<open>\<^verbatim>\<open>json.loads(data.decode('utf-8'))\<close>, line 119.\<close>

definition decode_json :: "pylib \<Rightarrow> byte list \<Rightarrow> pyexn + pyval" where
  "decode_json py data =
     (if valid_utf8 data then json_loads py data
      else Inl (UnicodeDecodeError (py_detail py BadUtf8 PNone)))"

subsection \<open>Dict access and serialisation\<close>

text \<open>\<^verbatim>\<open>d.get(k, default)\<close>; only a dict has the method.\<close>

definition dict_get :: "(string \<times> pyval) list \<Rightarrow> string \<Rightarrow> pyval \<Rightarrow> pyval" where
  "dict_get kvs k d = (case map_of kvs k of None \<Rightarrow> d | Some v \<Rightarrow> v)"

fun py_get :: "pylib \<Rightarrow> pyval \<Rightarrow> string \<Rightarrow> pyval \<Rightarrow> pyexn + pyval" where
  "py_get py (PDict kvs) k d = Inr (dict_get kvs k d)"
| "py_get py v k d = Inl (AttributeError (py_detail py NoGetAttr v))"

text \<open>
  \<^verbatim>\<open>d[k] = v\<close> on a dict replaces the value of a key already there, in place,
  and appends a new key at the end; on any other value of the model it raises
  \<^verbatim>\<open>TypeError\<close>.
\<close>

fun dict_set :: "string \<Rightarrow> pyval \<Rightarrow> (string \<times> pyval) list \<Rightarrow> (string \<times> pyval) list" where
  "dict_set k v [] = [(k, v)]"
| "dict_set k v (p # ps) = (if fst p = k then (k, v) # ps else p # dict_set k v ps)"

fun py_setitem :: "pylib \<Rightarrow> pyval \<Rightarrow> string \<Rightarrow> pyval \<Rightarrow> pyexn + pyval" where
  "py_setitem py (PDict kvs) k v = Inr (PDict (dict_set k v kvs))"
| "py_setitem py d k v = Inl (TypeError (py_detail py NoItemAssign d))"

text \<open>
  \<^verbatim>\<open>json.dumps\<close> serialises the JSON fragment and raises \<^verbatim>\<open>TypeError\<close> on anything
  else. A message on the wire is kept as \<open>Json v\<close>, the document whose
  serialisation was written.
\<close>

fun serializable :: "pyval \<Rightarrow> bool" where
  "serializable (PList xs) = (\<forall>x \<in> set xs. serializable x)"
| "serializable (PDict kvs) = (\<forall>(k, v) \<in> set kvs. serializable v)"
| "serializable (PObject n) = False"
| "serializable v = True"

datatype wire = Json pyval

definition json_dumps :: "pylib \<Rightarrow> pyval \<Rightarrow> pyexn + wire" where
  "json_dumps py v =
     (if serializable v then Inr (Json v)
      else Inl (TypeError (py_detail py NotSerializable v)))"

section \<open>The method registry and the dispatcher\<close>

text \<open>
  \<^verbatim>\<open>METHODS\<close> of \<^verbatim>\<open>methods.py\<close> maps a name to a callable. A handler takes the
  positional arguments and returns a value or raises: \<open>TypeError\<close> for an
  arity or type mismatch, some other \<^verbatim>\<open>Exception\<close> otherwise. What a handler
  gives depends on its arguments only; an exception outside \<^verbatim>\<open>Exception\<close>
  (\<^verbatim>\<open>SystemExit\<close>, \<^verbatim>\<open>KeyboardInterrupt\<close>) is not modelled.
\<close>

type_synonym handler = "pyval list \<Rightarrow> pyexn + pyval"
type_synonym methods = "string \<rightharpoonup> handler"

text \<open>
  \<^verbatim>\<open>METHODS.get(method)\<close>, line 178: a list or a dict is not hashable; any other
  key that is no string equals no name of the registry.
\<close>

fun methods_get :: "pylib \<Rightarrow> methods \<Rightarrow> pyval \<Rightarrow> pyexn + handler option" where
  "methods_get py M (PStr m) = Inr (M m)"
| "methods_get py M (PList xs) = Inl (TypeError (py_detail py Unhashable (PList xs)))"
| "methods_get py M (PDict kvs) = Inl (TypeError (py_detail py Unhashable (PDict kvs)))"
| "methods_get py M v = Inr None"

text \<open>
  \<^verbatim>\<open>method_handler(*args)\<close>, line 186: a list spreads to its items, a string to
  its characters, a dict to its keys; any other value is not iterable and the
  call raises \<^verbatim>\<open>TypeError\<close> before the handler runs.
\<close>

fun call_handler :: "pylib \<Rightarrow> handler \<Rightarrow> pyval \<Rightarrow> pyexn + pyval" where
  "call_handler py h (PList xs) = h xs"
| "call_handler py h (PStr s) = h (map (\<lambda>c. PStr [c]) s)"
| "call_handler py h (PDict kvs) = h (map (\<lambda>kv. PStr (fst kv)) kvs)"
| "call_handler py h v = Inl (TypeError (py_detail py NotIterable v))"

text \<open>
  \<^verbatim>\<open>methods.py\<close>: the one registered method. \<^verbatim>\<open>list_updates\<close> takes no argument
  and runs \<^verbatim>\<open>pacman -Sy\<close>, then \<^verbatim>\<open>pacman -Sup\<close>; how each run ends is given from
  outside. \<^verbatim>\<open>CalledProcessError\<close> is caught and reported in the result; any
  other exception of \<^verbatim>\<open>subprocess.run\<close> (the program is missing) leaves the
  handler.
\<close>

datatype proc = Exited string | CalledProcessError int string | RunFailed string

definition list_updates :: "pylib \<Rightarrow> proc \<Rightarrow> proc \<Rightarrow> handler" where
  "list_updates py sync query args =
     (if args \<noteq> [] then Inl (TypeError (py_detail py BadArity (PList args)))
      else
        (case sync of
           RunFailed d \<Rightarrow> Inl (OtherException d)
         | CalledProcessError rc err \<Rightarrow>
             Inr (PDict [(''success'', PBool False), (''exit_code'', PInt rc), (''error'', PStr err)])
         | Exited out0 \<Rightarrow>
             (case query of
                RunFailed d \<Rightarrow> Inl (OtherException d)
              | CalledProcessError rc err \<Rightarrow>
                  Inr (PDict [(''success'', PBool False), (''exit_code'', PInt rc),
                              (''error'', PStr err)])
              | Exited out \<Rightarrow>
                  Inr (PDict [(''success'', PBool True), (''updates'', PStr out)]))))"

definition METHODS :: "pylib \<Rightarrow> proc \<Rightarrow> proc \<Rightarrow> methods" where
  "METHODS py sync query = [''list_updates'' \<mapsto> list_updates py sync query]"

definition error_envelope :: "string \<Rightarrow> pyval" where
  "error_envelope msg = PDict [(''success'', PBool False), (''error'', PStr msg)]"

text \<open>\<^verbatim>\<open>handle_request\<close>, lines 170 to 196.\<close>

definition handle_request :: "pylib \<Rightarrow> methods \<Rightarrow> pyval \<Rightarrow> pyexn + pyval" where
  "handle_request py M json_data =
     (case py_get py json_data ''method'' PNone of
        Inl e \<Rightarrow> Inl e
      | Inr method \<Rightarrow>
          if \<not> truthy method then Inr (error_envelope ''No 'method' provided.'')
          else
            (case methods_get py M method of
               Inl e \<Rightarrow> Inl e
             | Inr None \<Rightarrow>
                 Inr (error_envelope (''No such method: '' @ sq @ py_str py method @ sq))
             | Inr (Some method_handler) \<Rightarrow>
                 (case py_get py json_data ''args'' (PList []) of
                    Inl e \<Rightarrow> Inl e
                  | Inr args \<Rightarrow>
                      (case call_handler py method_handler args of
                         Inr result \<Rightarrow> Inr result
                       | Inl (TypeError d) \<Rightarrow>
                           Inr (error_envelope
                                  (''Invalid arguments '' @ sq @ py_str py args @ sq
                                   @ '' for method '' @ sq @ py_str py method @ sq
                                   @ '': '' @ d))
                       | Inl e \<Rightarrow>
                           Inr (error_envelope
                                  (''Method '' @ sq @ py_str py method @ sq
                                   @ '' failed: '' @ str_exn e))))))"

section \<open>Connections\<close>

text \<open>
  A connected socket, as far as the server can observe it: whether the server
  has closed it, whether the peer is gone, and the messages written to it so
  far. \<^verbatim>\<open>sendall\<close> writes the whole message or raises \<^verbatim>\<open>OSError\<close>; a write that
  times out is not modelled. \<^verbatim>\<open>close\<close> may be called any number of times.
\<close>

record sock =
  closed :: bool
  peer_gone :: bool
  outbox :: "wire list"

definition writable :: "sock \<Rightarrow> bool" where
  "writable s = (\<not> closed s \<and> \<not> peer_gone s)"

definition sendall :: "sock \<Rightarrow> wire \<Rightarrow> pyexn + sock" where
  "sendall s m =
     (if closed s then Inl (OSError ''[Errno 9] Bad file descriptor'')
      else if peer_gone s then Inl (OSError ''[Errno 32] Broken pipe'')
      else Inr (s\<lparr>outbox := outbox s @ [m]\<rparr>))"

definition sock_close :: "sock \<Rightarrow> sock" where
  "sock_close s = s\<lparr>closed := True\<rparr>"

text \<open>\<^verbatim>\<open>client_socket.sendall(json.dumps(v).encode('utf-8'))\<close>.\<close>

definition send_json :: "pylib \<Rightarrow> sock \<Rightarrow> pyval \<Rightarrow> pyexn + sock" where
  "send_json py s v =
     (case json_dumps py v of
        Inl e \<Rightarrow> Inl e
      | Inr m \<Rightarrow> sendall s m)"

section \<open>The client session\<close>

text \<open>
  What one \<^verbatim>\<open>client_socket.recv(4096)\<close> gives: a timeout, a socket error, or
  bytes (none when the peer has closed).
\<close>

datatype recv_outcome = RecvTimeout | RecvError string | RecvData "byte list"

datatype control = Continue | Break

text \<open>Lines 124 and 125: the request's id goes into the response when it is truthy.\<close>

definition echo_request_id :: "pylib \<Rightarrow> pyval \<Rightarrow> pyval \<Rightarrow> pyexn + pyval" where
  "echo_request_id py request_id response =
     (if truthy request_id then py_setitem py response ''request_id'' request_id
      else Inr response)"

text \<open>Lines 119 to 127: the body of the inner \<^verbatim>\<open>try\<close>.\<close>

definition process_request :: "pylib \<Rightarrow> methods \<Rightarrow> byte list \<Rightarrow> sock \<Rightarrow> pyexn + sock" where
  "process_request py M data s =
     (case decode_json py data of
        Inl e \<Rightarrow> Inl e
      | Inr json_data \<Rightarrow>
          (case py_get py json_data ''request_id'' PNone of
             Inl e \<Rightarrow> Inl e
           | Inr request_id \<Rightarrow>
               (case handle_request py M json_data of
                  Inl e \<Rightarrow> Inl e
                | Inr response \<Rightarrow>
                    (case echo_request_id py request_id response of
                       Inl e \<Rightarrow> Inl e
                     | Inr response' \<Rightarrow> send_json py s response'))))"

text \<open>
  Lines 108 to 153: one pass of the \<^verbatim>\<open>while\<close> body. On a socket the server has
  closed, \<^verbatim>\<open>settimeout\<close> raises \<^verbatim>\<open>OSError\<close> and the loop breaks. An exception
  raised by the send of line 134 leaves the inner \<^verbatim>\<open>try\<close> and meets the outer
  clauses: \<^verbatim>\<open>socket.timeout\<close> continues, anything else ends the loop.
\<close>

definition session_iter :: "pylib \<Rightarrow> methods \<Rightarrow> recv_outcome \<Rightarrow> sock \<Rightarrow> sock \<times> control" where
  "session_iter py M ev s =
     (if closed s then (s, Break)
      else
        (case ev of
           RecvTimeout \<Rightarrow> (s, Continue)
         | RecvError d \<Rightarrow> (s, Break)
         | RecvData data \<Rightarrow>
             if data = [] then (s, Break)
             else
               (case process_request py M data s of
                  Inr s' \<Rightarrow> (s', Continue)
                | Inl (JSONDecodeError d) \<Rightarrow>
                    (case send_json py s (error_envelope ''Invalid JSON format'') of
                       Inr s' \<Rightarrow> (s', Break)
                     | Inl SocketTimeout \<Rightarrow> (s, Continue)
                     | Inl e \<Rightarrow> (s, Break))
                | Inl e \<Rightarrow>
                    (case send_json py s (error_envelope (''Server error: '' @ str_exn e)) of
                       Inr s' \<Rightarrow> (s', Break)
                     | Inl e' \<Rightarrow> (s, Break)))))"

section \<open>The server\<close>

text \<open>
  The fields of \<^verbatim>\<open>UnixSocketServer\<close> that the claims involve. A connection is
  named by a handle; \<open>socks\<close> is the store of the socket objects. What is at
  the socket path is part of the state: nothing, a file that was there before
  this server bound, or the socket file this server's \<^verbatim>\<open>bind\<close> created.
\<close>

type_synonym conn = nat

datatype path_state = Absent | Stale | Bound

datatype lsock = Open | Closed

record server =
  running :: bool
  client_sockets :: "conn list"
  client_threads :: "conn list"
  server_socket :: "lsock option"
  socks :: "conn \<Rightarrow> sock"
  socket_file :: path_state

definition shutdown_msg :: pyval where
  "shutdown_msg =
     PDict [(''success'', PBool False), (''error'', PStr ''Server shutting down''),
            (''shutdown'', PBool True)]"

text \<open>
  Lines 206 to 229, for one socket of the snapshot: send the notice, drain,
  close; when the send raises, close all the same.
\<close>

definition disconnect_client :: "pylib \<Rightarrow> sock \<Rightarrow> sock" where
  "disconnect_client py s =
     (case send_json py s shutdown_msg of
        Inr s' \<Rightarrow> sock_close s'
      | Inl e \<Rightarrow> sock_close s)"

text \<open>The loop of lines 205 to 229 over the copy of the list.\<close>

definition notify_all :: "pylib \<Rightarrow> conn list \<Rightarrow> server \<Rightarrow> server" where
  "notify_all py cs st =
     fold (\<lambda>c t. t\<lparr>socks := (socks t)(c := disconnect_client py (socks t c))\<rparr>) cs st"

text \<open>
  \<^verbatim>\<open>disconnect_all_clients\<close>, lines 198 to 235: the copy of the list is taken in
  one step (under the lock), the loop runs over the copy, the list is cleared.
\<close>

definition disconnect_all_clients :: "pylib \<Rightarrow> server \<Rightarrow> server" where
  "disconnect_all_clients py st =
     (let clients_to_close = client_sockets st;
          st' = notify_all py clients_to_close st
      in st'\<lparr>client_sockets := []\<rparr>)"

text \<open>\<^verbatim>\<open>shutdown\<close>, lines 288 to 294.\<close>

definition shutdown :: "pylib \<Rightarrow> server \<Rightarrow> server" where
  "shutdown py st = disconnect_all_clients py (st\<lparr>running := False\<rparr>)"

text \<open>
  \<^verbatim>\<open>cleanup\<close>, lines 296 to 330. Joining the client threads changes none of
  the fields. \<open>unlink_ok\<close> says whether \<^verbatim>\<open>os.unlink\<close> succeeds; when it raises,
  the error is printed and the file stays.
\<close>

definition cleanup :: "pylib \<Rightarrow> bool \<Rightarrow> server \<Rightarrow> server" where
  "cleanup py unlink_ok st =
     (let st1 = disconnect_all_clients py (st\<lparr>running := False\<rparr>);
          st2 = (case server_socket st1 of
                   None \<Rightarrow> st1
                 | Some l \<Rightarrow> st1\<lparr>server_socket := Some Closed\<rparr>)
      in if socket_file st2 \<noteq> Absent \<and> unlink_ok
         then st2\<lparr>socket_file := Absent\<rparr>
         else st2)"

subsection \<open>The session as a whole\<close>

text \<open>Lines 102 to 104, and the \<^verbatim>\<open>finally\<close> of lines 157 to 167.\<close>

definition session_enter :: "conn \<Rightarrow> server \<Rightarrow> server" where
  "session_enter c st = st\<lparr>client_sockets := client_sockets st @ [c]\<rparr>"

definition session_exit :: "conn \<Rightarrow> server \<Rightarrow> server" where
  "session_exit c st =
     st\<lparr>client_sockets :=
          (if c \<in> set (client_sockets st) then remove1 c (client_sockets st)
           else client_sockets st),
        socks := (socks st)(c := sock_close (socks st c))\<rparr>"

definition session_step :: "pylib \<Rightarrow> methods \<Rightarrow> conn \<Rightarrow> recv_outcome \<Rightarrow> server \<Rightarrow> server \<times> control" where
  "session_step py M c ev st =
     (case session_iter py M ev (socks st c) of
        (s', ctl) \<Rightarrow> (st\<lparr>socks := (socks st)(c := s')\<rparr>, ctl))"

text \<open>
  The \<^verbatim>\<open>while self.running\<close> loop over what the successive reads give. The
  result is \<open>None\<close> when the reads are used up and the loop has not ended: the
  session is still waiting.
\<close>

fun session_loop :: "pylib \<Rightarrow> methods \<Rightarrow> conn \<Rightarrow> recv_outcome list \<Rightarrow> server \<Rightarrow> server option" where
  "session_loop py M c [] st = (if running st then None else Some st)"
| "session_loop py M c (ev # evs) st =
     (if \<not> running st then Some st
      else
        (case session_step py M c ev st of
           (st', Break) \<Rightarrow> Some st'
         | (st', Continue) \<Rightarrow> session_loop py M c evs st'))"

text \<open>\<^verbatim>\<open>handle_client\<close>, lines 98 to 168, run without interference.\<close>

definition handle_client :: "pylib \<Rightarrow> methods \<Rightarrow> conn \<Rightarrow> recv_outcome list \<Rightarrow> server \<Rightarrow> server option" where
  "handle_client py M c evs st =
     map_option (session_exit c) (session_loop py M c evs (session_enter c st))"

subsection \<open>Start and teardown\<close>

text \<open>\<^verbatim>\<open>__init__\<close>, lines 21 to 37, with the sockets and the path as they are.\<close>

definition init_server :: "(conn \<Rightarrow> sock) \<Rightarrow> path_state \<Rightarrow> server" where
  "init_server ss f =
     \<lparr>running = False, client_sockets = [], client_threads = [], server_socket = None,
      socks = ss, socket_file = f\<rparr>"

text \<open>
  Whether each call of \<^verbatim>\<open>start\<close> and \<^verbatim>\<open>cleanup\<close> into the operating system
  succeeds: the \<^verbatim>\<open>os.unlink\<close> of line 242, \<^verbatim>\<open>socket.socket\<close>, \<^verbatim>\<open>bind\<close>, \<^verbatim>\<open>listen\<close>,
  and the \<^verbatim>\<open>os.unlink\<close> of line 325. A failed \<^verbatim>\<open>bind\<close> creates no file.
\<close>

record os_env =
  unlink_ok :: bool
  socket_ok :: bool
  bind_ok :: bool
  listen_ok :: bool
  cleanup_unlink_ok :: bool

text \<open>
  What happens while the accept loop of lines 257 to 278 runs: a termination
  signal (its handler calls \<^verbatim>\<open>shutdown\<close> in the main thread while \<^verbatim>\<open>accept\<close>
  waits, and \<^verbatim>\<open>accept\<close> goes on waiting), or \<^verbatim>\<open>accept\<close> ends: with a timeout,
  with a socket error, with a connection whose thread is started and recorded,
  or with any other exception raised in the body.
\<close>

datatype accept_event =
  Signal | AcceptTimeout | AcceptError string | Accepted conn | AcceptOther string

fun accept_loop :: "pylib \<Rightarrow> accept_event list \<Rightarrow> server \<Rightarrow> (pyexn option \<times> server) option" where
  "accept_loop py [] st = None"
| "accept_loop py (Signal # evs) st = accept_loop py evs (shutdown py st)"
| "accept_loop py (AcceptTimeout # evs) st =
     (if running st then accept_loop py evs st else Some (None, st))"
| "accept_loop py (AcceptError d # evs) st = Some (None, st)"
| "accept_loop py (Accepted c # evs) st =
     (let st' = st\<lparr>client_threads := client_threads st @ [c]\<rparr>
      in if running st' then accept_loop py evs st' else Some (None, st'))"
| "accept_loop py (AcceptOther d # evs) st = Some (Some (OtherException d), st)"

text \<open>
  Lines 240 to 252, up to the loop: the state reached, or the state in which
  an exception was raised. \<^verbatim>\<open>set_socket_permissions\<close> catches every exception
  and changes none of the fields.
\<close>

definition start_setup :: "os_env \<Rightarrow> server \<Rightarrow> server + server" where
  "start_setup env st =
     (if socket_file st \<noteq> Absent \<and> \<not> unlink_ok env then Inl st
      else
        (let st0 = st\<lparr>socket_file := Absent\<rparr> in
         if \<not> socket_ok env then Inl st0
         else
           (let st1 = st0\<lparr>server_socket := Some Open\<rparr> in
            if \<not> bind_ok env then Inl st1
            else
              (let st2 = st1\<lparr>socket_file := Bound\<rparr> in
               if \<not> listen_ok env then Inl st2
               else Inr (st2\<lparr>running := True\<rparr>)))))"

text \<open>
  \<^verbatim>\<open>start\<close>, lines 237 to 286: the exit code and the state after the
  \<^verbatim>\<open>finally\<close>. The loop ends normally (code 0) or with an exception that
  line 280 catches (code 1). \<open>None\<close>: the server is still accepting.
\<close>

definition start :: "pylib \<Rightarrow> os_env \<Rightarrow> accept_event list \<Rightarrow> server \<Rightarrow> (int \<times> server) option" where
  "start py env evs st =
     (case start_setup env st of
        Inl failed \<Rightarrow> Some (1, cleanup py (cleanup_unlink_ok env) failed)
      | Inr ready \<Rightarrow>
          (case accept_loop py evs ready of
             None \<Rightarrow> None
           | Some (None, st') \<Rightarrow> Some (0, cleanup py (cleanup_unlink_ok env) st')
           | Some (Some e, st') \<Rightarrow> Some (1, cleanup py (cleanup_unlink_ok env) st')))"

section \<open>Sessions running side by side\<close>

text \<open>
  Each session is a thread; the shutdown broadcast runs in the main thread.
  What the threads share is the server object, and each block that holds
  \<^verbatim>\<open>client_lock\<close> is one step. A session is before its entry, between entry and
  exit, or past its exit; \<^verbatim>\<open>accept\<close> gives every session a socket of its own.
  The steps: a session registers its socket (lines 102 to 104), runs one pass
  of its loop, or leaves through the \<^verbatim>\<open>finally\<close> (lines 157 to 167); the
  broadcast notifies and closes one socket of its copy (lines 206 to 229), or
  clears the list (lines 232 and 233); \<^verbatim>\<open>running\<close> is set to false. The flag of
  the relation says whether the steps of the broadcast may occur.
\<close>

datatype phase = NotStarted | InSession | Ended

inductive reach :: "pylib \<Rightarrow> methods \<Rightarrow> bool \<Rightarrow> server \<Rightarrow> (conn \<Rightarrow> phase) \<Rightarrow> bool"
  for py :: pylib and M :: methods and bc :: bool where
  init: "reach py M bc (init_server ss f) (\<lambda>c. NotStarted)"
| listening: "reach py M bc st ph \<Longrightarrow> reach py M bc (st\<lparr>running := True\<rparr>) ph"
| enter: "reach py M bc st ph \<Longrightarrow> ph c = NotStarted \<Longrightarrow>
          reach py M bc (session_enter c st) (ph(c := InSession))"
| pass: "reach py M bc st ph \<Longrightarrow> ph c = InSession \<Longrightarrow>
         reach py M bc (fst (session_step py M c ev st)) ph"
| leave: "reach py M bc st ph \<Longrightarrow> ph c = InSession \<Longrightarrow>
          reach py M bc (session_exit c st) (ph(c := Ended))"
| stop: "reach py M bc st ph \<Longrightarrow> reach py M bc (st\<lparr>running := False\<rparr>) ph"
| notify: "reach py M bc st ph \<Longrightarrow> bc \<Longrightarrow>
           reach py M bc (st\<lparr>socks := (socks st)(c := disconnect_client py (socks st c))\<rparr>) ph"
| clear: "reach py M bc st ph \<Longrightarrow> bc \<Longrightarrow> reach py M bc (st\<lparr>client_sockets := []\<rparr>) ph"

section \<open>A sample of the library, for concrete runs\<close>

text \<open>
  \<^verbatim>\<open>json.loads\<close> on the inputs the concrete runs below use, where it is what
  Python returns; every other input of the runs is no JSON text. The texts of
  \<^verbatim>\<open>repr\<close> and of the interpreter's messages are samples.
\<close>

definition ascii :: "string \<Rightarrow> byte list" where
  "ascii s = map (\<lambda>c. word_of_nat (of_char c)) s"

definition sample_loads :: "byte list \<Rightarrow> pyexn + pyval" where
  \<open>sample_loads data =
     (case map_of
        [(ascii ''{}'', PDict []),
         (ascii ''[]'', PList []),
         (ascii ''{"method":"list_updates","args":[],"request_id":"abc"}'',
          PDict [(''method'', PStr ''list_updates''), (''args'', PList []),
                 (''request_id'', PStr ''abc'')]),
         (ascii ''{"method":"list_updates","request_id":0}'',
          PDict [(''method'', PStr ''list_updates''), (''request_id'', PInt 0)]),
         (ascii ''{"method":"list_updates","args":[1]}'',
          PDict [(''method'', PStr ''list_updates''), (''args'', PList [PInt 1])]),
         (ascii ''{"method":"list_updates"}'',
          PDict [(''method'', PStr ''list_updates'')]),
         (ascii ''{"request_id":0}'', PDict [(''request_id'', PInt 0)]),
         (ascii ''null'', PNone),
         (ascii ''{"method":"nope","request_id":"abc"}'',
          PDict [(''method'', PStr ''nope''), (''request_id'', PStr ''abc'')]),
         (ascii ''{"method":"list_updates","args":[1],"request_id":"abc"}'',
          PDict [(''method'', PStr ''list_updates''), (''args'', PList [PInt 1]),
                 (''request_id'', PStr ''abc'')]),
         (ascii ''{"method":"boom","request_id":"abc"}'',
          PDict [(''method'', PStr ''boom''), (''request_id'', PStr ''abc'')]),
         (ascii ''{"method":"ids"}'', PDict [(''method'', PStr ''ids'')]),
         (ascii ''{"request_id":"abc"}'', PDict [(''request_id'', PStr ''abc'')]),
         (ascii ''{"method":"ids","request_id":"abc"}'',
          PDict [(''method'', PStr ''ids''), (''request_id'', PStr ''abc'')]),
         (ascii ''{"method":"tags"}'', PDict [(''method'', PStr ''tags'')]),
         (ascii ''{"method":"boom"}'', PDict [(''method'', PStr ''boom'')]),
         (ascii ''{"method":[1],"request_id":"abc"}'',
          PDict [(''method'', PList [PInt 1]), (''request_id'', PStr ''abc'')])] data of
        Some v \<Rightarrow> Inr v
      | None \<Rightarrow> Inl (JSONDecodeError ''Expecting property name enclosed in double quotes''))\<close>

definition sample_repr :: "pyval \<Rightarrow> string" where
  "sample_repr v =
     (if v = PList [] then ''[]'' else if v = PList [PInt 1] then ''[1]'' else ''None'')"

fun type_name :: "pyval \<Rightarrow> string" where
  "type_name PNone = ''NoneType''"
| "type_name (PBool b) = ''bool''"
| "type_name (PInt i) = ''int''"
| "type_name (PFloat m e) = ''float''"
| "type_name (PStr s) = ''str''"
| "type_name (PList xs) = ''list''"
| "type_name (PDict kvs) = ''dict''"
| "type_name (PObject n) = n"

fun sample_detail :: "fault \<Rightarrow> pyval \<Rightarrow> string" where
  "sample_detail NoGetAttr v =
     sq @ type_name v @ sq @ '' object has no attribute '' @ sq @ ''get'' @ sq"
| "sample_detail Unhashable v = ''unhashable type: '' @ sq @ ''list'' @ sq"
| "sample_detail NotIterable v =
     ''list_updates() argument after * must be an iterable, not int''"
| "sample_detail BadArity v = ''list_updates() takes 0 positional arguments but 1 was given''"
| "sample_detail NoItemAssign v = ''list indices must be integers or slices, not str''"
| "sample_detail NotSerializable v = ''Object of type set is not JSON serializable''"
| "sample_detail BadUtf8 v =
     sq @ ''utf-8'' @ sq @ '' codec can't decode byte 0xff in position 0: invalid start byte''"

definition py0 :: pylib where
  "py0 = \<lparr>json_loads = sample_loads, py_repr = sample_repr, py_detail = sample_detail\<rparr>"

text \<open>
  The registry of \<^verbatim>\<open>methods.py\<close> when both runs of \<^verbatim>\<open>pacman\<close> succeed, and a
  registry whose handlers return a list, return a set, and fail.
\<close>

definition M0 :: methods where
  "M0 = METHODS py0 (Exited []) (Exited (''pkgA 1.0->1.1'' @ [CHR 0x0A]))"

definition M1 :: methods where
  "M1 = [''ids'' \<mapsto> (\<lambda>args. Inr (PList [])),
         ''tags'' \<mapsto> (\<lambda>args. Inr (PObject ''set'')),
         ''boom'' \<mapsto> (\<lambda>args. Inl (OtherException ''pacman not found''))]"

definition sock0 :: sock where
  "sock0 = \<lparr>closed = False, peer_gone = False, outbox = []\<rparr>"

definition srv0 :: server where
  "srv0 = (init_server (\<lambda>c. sock0) Absent)\<lparr>running := True\<rparr>"

text \<open>An environment in which \<^verbatim>\<open>bind\<close> fails.\<close>

definition env_bind_fails :: os_env where
  "env_bind_fails = \<lparr>unlink_ok = True, socket_ok = True, bind_ok = False, listen_ok = True,
                     cleanup_unlink_ok = True\<rparr>"

text \<open>A running server with two sessions registered.\<close>

definition srv2 :: server where
  "srv2 = srv0\<lparr>client_sockets := [1, 2]\<rparr>"

section \<open>Auxiliary facts\<close>

lemma serializable_dict_get:
  "serializable (PDict kvs) \<Longrightarrow> serializable d \<Longrightarrow> serializable (dict_get kvs k d)"
  by (auto simp: dict_get_def split: option.splits dest!: map_of_SomeD)

lemma serializable_dict_set:
  "serializable (PDict kvs) \<Longrightarrow> serializable v \<Longrightarrow> serializable (PDict (dict_set k v kvs))"
  by (induction kvs) (auto split: if_splits)

lemma serializable_error_envelope: "serializable (error_envelope msg)"
  by (simp add: error_envelope_def)

lemma send_json_writable:
  "writable s \<Longrightarrow> serializable v \<Longrightarrow> send_json py s v = Inr (s\<lparr>outbox := outbox s @ [Json v]\<rparr>)"
  by (simp add: send_json_def json_dumps_def sendall_def writable_def)

lemma send_json_unwritable:
  "\<not> writable s \<Longrightarrow> serializable v \<Longrightarrow>
   send_json py s v =
     Inl (OSError (if closed s then ''[Errno 9] Bad file descriptor''
                   else ''[Errno 32] Broken pipe''))"
  by (auto simp: send_json_def json_dumps_def sendall_def writable_def)

lemma process_request_dict:
  "decode_json py data = Inr (PDict kvs) \<Longrightarrow>
   process_request py M data s =
     (case handle_request py M (PDict kvs) of
        Inl e \<Rightarrow> Inl e
      | Inr response \<Rightarrow>
          (case echo_request_id py (dict_get kvs ''request_id'' PNone) response of
             Inl e \<Rightarrow> Inl e
           | Inr response' \<Rightarrow> send_json py s response'))"
  by (simp add: process_request_def)

lemma handle_request_no_method:
  "\<not> truthy (dict_get kvs ''method'' PNone) \<Longrightarrow>
   handle_request py M (PDict kvs) = Inr (error_envelope ''No 'method' provided.'')"
  by (simp add: handle_request_def)

lemma handle_request_found:
  "dict_get kvs ''method'' PNone = PStr m \<Longrightarrow> m \<noteq> [] \<Longrightarrow> M m = Some h \<Longrightarrow>
   handle_request py M (PDict kvs) =
     (case call_handler py h (dict_get kvs ''args'' (PList [])) of
        Inr result \<Rightarrow> Inr result
      | Inl (TypeError d) \<Rightarrow>
          Inr (error_envelope
                 (''Invalid arguments '' @ sq @ py_str py (dict_get kvs ''args'' (PList [])) @ sq
                  @ '' for method '' @ sq @ m @ sq @ '': '' @ d))
      | Inl e \<Rightarrow>
          Inr (error_envelope (''Method '' @ sq @ m @ sq @ '' failed: '' @ str_exn e)))"
  by (simp add: handle_request_def split: sum.splits pyexn.splits)

lemma echo_envelope:
  "echo_request_id py rid (error_envelope msg) =
     Inr (if truthy rid
          then PDict [(''success'', PBool False), (''error'', PStr msg), (''request_id'', rid)]
          else error_envelope msg)"
  by (simp add: echo_request_id_def error_envelope_def)

lemma session_iter_reply:
  assumes "data \<noteq> []" "writable s" "decode_json py data = Inr (PDict kvs)"
    and "handle_request py M (PDict kvs) = Inr response"
    and "echo_request_id py (dict_get kvs ''request_id'' PNone) response = Inr reply"
    and "serializable reply"
  shows "session_iter py M (RecvData data) s = (s\<lparr>outbox := outbox s @ [Json reply]\<rparr>, Continue)"
  using assms
  by (simp add: session_iter_def process_request_dict send_json_writable writable_def)

lemma session_iter_server_error:
  assumes "data \<noteq> []" "\<not> closed s" "process_request py M data s = Inl e"
    and "\<forall>d. e \<noteq> JSONDecodeError d"
  shows "session_iter py M (RecvData data) s =
           (if writable s
            then s\<lparr>outbox := outbox s @ [Json (error_envelope (''Server error: '' @ str_exn e))]\<rparr>
            else s, Break)"
proof (cases "writable s")
  case True
  then show ?thesis using assms
    by (cases e) (simp_all add: session_iter_def send_json_writable serializable_error_envelope)
next
  case False
  then show ?thesis using assms
    by (cases e) (simp_all add: session_iter_def send_json_unwritable serializable_error_envelope)
qed

lemma handle_client_break:
  "running st \<Longrightarrow> session_iter py M ev (socks st c) = (s', Break) \<Longrightarrow>
   handle_client py M c (ev # evs) st =
     Some (session_exit c ((session_enter c st)\<lparr>socks := (socks st)(c := s')\<rparr>))"
  by (simp add: handle_client_def session_step_def session_enter_def)

lemma session_exit_after_enter:
  "c \<notin> set (client_sockets st) \<Longrightarrow>
   session_exit c ((session_enter c st)\<lparr>socks := (socks st)(c := s')\<rparr>) =
     st\<lparr>socks := (socks st)(c := sock_close s')\<rparr>"
  by (simp add: session_exit_def session_enter_def remove1_append)

section \<open>The claims\<close>

lemma process_request_undecoded:
  "decode_json py data = Inl e \<Longrightarrow> process_request py M data s = Inl e"
  by (simp add: process_request_def)

lemma handle_client_ends:
  assumes "running st" "c \<notin> set (client_sockets st)"
    and "session_iter py M ev (socks st c) = (s', Break)"
  shows "handle_client py M c (ev # evs) st = Some (st\<lparr>socks := (socks st)(c := sock_close s')\<rparr>)"
  using handle_client_break [OF assms(1,3)] session_exit_after_enter [OF assms(2)] by simp


text \<open>
  C1, as the code has it. When the method of a request names a registered
  handler and the handler returns, the dispatcher returns that value
  unchanged. The session writes it as it is when the request's id is absent
  or not truthy, and with \<^verbatim>\<open>request_id\<close> set to the request's id when that id is
  truthy and the value is a dict; the value written has to be serialisable.
\<close>

theorem handler_result_passes_through:
  assumes "dict_get kvs ''method'' PNone = PStr m" and "m \<noteq> []" and "M m = Some h"
    and "call_handler py h (dict_get kvs ''args'' (PList [])) = Inr result"
    and "rid = dict_get kvs ''request_id'' PNone"
  shows "handle_request py M (PDict kvs) = Inr result \<and>
         (data \<noteq> [] \<and> writable s \<and> decode_json py data = Inr (PDict kvs) \<and>
          serializable (PDict kvs) \<and> serializable result \<longrightarrow>
            (\<not> truthy rid \<longrightarrow>
               session_iter py M (RecvData data) s =
                 (s\<lparr>outbox := outbox s @ [Json result]\<rparr>, Continue)) \<and>
            (\<forall>r. truthy rid \<and> result = PDict r \<longrightarrow>
               session_iter py M (RecvData data) s =
                 (s\<lparr>outbox := outbox s @ [Json (PDict (dict_set ''request_id'' rid r))]\<rparr>,
                  Continue)))"
proof -
  have hr: "handle_request py M (PDict kvs) = Inr result"
    using handle_request_found [of kvs m M h py] assms(1-4) by simp
  have a: "session_iter py M (RecvData data) s = (s\<lparr>outbox := outbox s @ [Json result]\<rparr>, Continue)"
    if h: "data \<noteq> []" "writable s" "decode_json py data = Inr (PDict kvs)"
      "serializable result" "\<not> truthy rid"
  proof -
    have echo: "echo_request_id py (dict_get kvs ''request_id'' PNone) result = Inr result"
      using h(5) assms(5) by (simp add: echo_request_id_def)
    show ?thesis by (rule session_iter_reply [OF h(1,2,3) hr echo h(4)])
  qed
  have b: "session_iter py M (RecvData data) s =
             (s\<lparr>outbox := outbox s @ [Json (PDict (dict_set ''request_id'' rid r))]\<rparr>, Continue)"
    if h: "data \<noteq> []" "writable s" "decode_json py data = Inr (PDict kvs)"
      "serializable (PDict kvs)" "serializable result" "truthy rid" "result = PDict r" for r
  proof -
    have echo: "echo_request_id py (dict_get kvs ''request_id'' PNone) result =
                  Inr (PDict (dict_set ''request_id'' rid r))"
      using h(6,7) assms(5) by (simp add: echo_request_id_def)
    have "serializable rid" using h(4) assms(5) by (simp add: serializable_dict_get)
    moreover have "serializable (PDict r)" using h(5,7) by simp
    ultimately have ser: "serializable (PDict (dict_set ''request_id'' rid r))"
      by (simp only: serializable_dict_set)
    show ?thesis by (rule session_iter_reply [OF h(1,2,3) hr echo ser])
  qed
  show ?thesis using hr a b by blast
qed

lemma map_of_dict_set: "map_of (dict_set k v kvs) k = Some v"
  by (induction kvs) auto

lemma sock0_writable: "writable sock0"
  by (simp add: writable_def sock0_def)


text \<open>
  The request \<^verbatim>\<open>{"method":"list_updates","args":[],"request_id":"abc"}\<close> and its
  response \<^verbatim>\<open>{"success":true,"updates":"pkgA 1.0->1.1\n","request_id":"abc"}\<close>.
\<close>

theorem handler_result_passes_through_witness:
  \<open>handle_request py0 M0
     (PDict [(''method'', PStr ''list_updates''), (''args'', PList []),
             (''request_id'', PStr ''abc'')]) =
     Inr (PDict [(''success'', PBool True), (''updates'', PStr (''pkgA 1.0->1.1'' @ [CHR 0x0A]))]) \<and>
   session_iter py0 M0
     (RecvData (ascii ''{"method":"list_updates","args":[],"request_id":"abc"}'')) sock0 =
     (sock0\<lparr>outbox :=
        [Json (PDict [(''success'', PBool True),
                      (''updates'', PStr (''pkgA 1.0->1.1'' @ [CHR 0x0A])),
                      (''request_id'', PStr ''abc'')])]\<rparr>, Continue)\<close>
proof -
  let ?kvs = "[(''method'', PStr ''list_updates''), (''args'', PList []),
               (''request_id'', PStr ''abc'')]"
  let ?h = "list_updates py0 (Exited []) (Exited (''pkgA 1.0->1.1'' @ [CHR 0x0A]))"
  let ?res = "PDict [(''success'', PBool True), (''updates'', PStr (''pkgA 1.0->1.1'' @ [CHR 0x0A]))]"
  have d: \<open>decode_json py0 (ascii ''{"method":"list_updates","args":[],"request_id":"abc"}'') =
            Inr (PDict ?kvs)\<close>
    by (simp add: decode_json_def valid_utf8_def ascii_def py0_def sample_loads_def)
  have n: \<open>ascii ''{"method":"list_updates","args":[],"request_id":"abc"}'' \<noteq> []\<close>
    by (simp add: ascii_def)
  have m: "dict_get ?kvs ''method'' PNone = PStr ''list_updates''" by (simp add: dict_get_def)
  have f: "M0 ''list_updates'' = Some ?h" by (simp add: M0_def METHODS_def)
  have c: "call_handler py0 ?h (dict_get ?kvs ''args'' (PList [])) = Inr ?res"
    by (simp add: dict_get_def list_updates_def)
  have ser: "serializable (PDict ?kvs) \<and> serializable ?res" by simp
  note t = handler_result_passes_through [where M = M0 and h = ?h and s = sock0
      and data = \<open>ascii ''{"method":"list_updates","args":[],"request_id":"abc"}''\<close>,
      OF m _ f c refl]
  show ?thesis
    using t d n ser sock0_writable by (simp add: dict_get_def sock0_def)
qed

text \<open>
  C1 as stated fails when the request supplies the id \<^verbatim>\<open>0\<close>: the test of
  line 124 takes it as false, and the response is the handler's value without
  any \<^verbatim>\<open>request_id\<close>.
\<close>

theorem falsy_request_id_counterexample:
  \<open>decode_json py0 (ascii ''{"method":"list_updates","request_id":0}'') =
     Inr (PDict [(''method'', PStr ''list_updates''), (''request_id'', PInt 0)]) \<and>
   session_iter py0 M0 (RecvData (ascii ''{"method":"list_updates","request_id":0}'')) sock0 =
     (sock0\<lparr>outbox :=
        [Json (PDict [(''success'', PBool True),
                      (''updates'', PStr (''pkgA 1.0->1.1'' @ [CHR 0x0A]))])]\<rparr>, Continue) \<and>
   map_of [(''success'', PBool True), (''updates'', PStr (''pkgA 1.0->1.1'' @ [CHR 0x0A]))]
     ''request_id'' = None\<close>
  by (simp add: decode_json_def valid_utf8_def ascii_def py0_def sample_loads_def
      session_iter_def process_request_def handle_request_def dict_get_def M0_def METHODS_def
      list_updates_def echo_request_id_def send_json_def json_dumps_def sendall_def sock0_def)

lemma process_request_not_dict:
  "decode_json py data = Inr v \<Longrightarrow> \<forall>kvs. v \<noteq> PDict kvs \<Longrightarrow>
   process_request py M data s = Inl (AttributeError (py_detail py NoGetAttr v))"
  by (cases v) (simp_all add: process_request_def)

lemma send_json_not_serializable:
  "\<not> serializable v \<Longrightarrow> send_json py s v = Inl (TypeError (py_detail py NotSerializable v))"
  by (simp add: send_json_def json_dumps_def)

lemma serializable_shutdown_msg: "serializable shutdown_msg"
  by (simp add: shutdown_msg_def)

lemma disconnect_client_eq:
  "disconnect_client py s =
     (if writable s then s\<lparr>outbox := outbox s @ [Json shutdown_msg], closed := True\<rparr>
      else s\<lparr>closed := True\<rparr>)"
  by (simp add: disconnect_client_def send_json_writable send_json_unwritable
      serializable_shutdown_msg sock_close_def)

lemma disconnect_client_idem:
  "disconnect_client py (disconnect_client py s) = disconnect_client py s"
  by (simp add: disconnect_client_eq writable_def)

lemma notify_all_fields:
  "running (notify_all py cs st) = running st \<and>
   client_sockets (notify_all py cs st) = client_sockets st \<and>
   client_threads (notify_all py cs st) = client_threads st \<and>
   server_socket (notify_all py cs st) = server_socket st \<and>
   socket_file (notify_all py cs st) = socket_file st"
  by (induction cs arbitrary: st) (simp_all add: notify_all_def)

lemma notify_all_socks:
  "socks (notify_all py cs st) c =
     (if c \<in> set cs then disconnect_client py (socks st c) else socks st c)"
proof (induction cs arbitrary: st)
  case Nil
  then show ?case by (simp add: notify_all_def)
next
  case (Cons a cs)
  have "notify_all py (a # cs) st =
          notify_all py cs (st\<lparr>socks := (socks st)(a := disconnect_client py (socks st a))\<rparr>)"
    by (simp add: notify_all_def)
  then show ?case using Cons.IH by (simp add: disconnect_client_idem)
qed

lemma disconnect_all_clients_eq:
  "disconnect_all_clients py st = (notify_all py (client_sockets st) st)\<lparr>client_sockets := []\<rparr>"
  by (simp add: disconnect_all_clients_def)

lemma disconnect_all_clients_socks:
  "socks (disconnect_all_clients py st) c =
     (if c \<in> set (client_sockets st) then disconnect_client py (socks st c) else socks st c)"
  by (simp add: disconnect_all_clients_eq notify_all_socks)

lemma disconnect_all_clients_empty:
  "client_sockets st = [] \<Longrightarrow> disconnect_all_clients py st = st"
  by (simp add: disconnect_all_clients_def notify_all_def)

lemma disconnect_all_clients_clears: "client_sockets (disconnect_all_clients py st) = []"
  by (simp add: disconnect_all_clients_eq)

lemma disconnect_all_clients_fields:
  "running (disconnect_all_clients py st) = running st \<and>
   client_threads (disconnect_all_clients py st) = client_threads st \<and>
   server_socket (disconnect_all_clients py st) = server_socket st \<and>
   socket_file (disconnect_all_clients py st) = socket_file st"
  by (simp add: disconnect_all_clients_eq notify_all_fields)

text \<open>
  C7. A second \<^verbatim>\<open>shutdown\<close> right after the first returns the same state: the
  list was cleared, so the second broadcast (like the one \<^verbatim>\<open>cleanup\<close> runs
  later) finds no connection, writes nothing and closes nothing. Each
  connection registered at the first call holds one notice at most. The
  operation has no failing outcome: every exception of its body is caught
  inside it.
\<close>

theorem shutdown_twice_is_harmless:
  "shutdown py (shutdown py st) = shutdown py st \<and>
   disconnect_all_clients py (shutdown py st) = shutdown py st \<and>
   (\<forall>c. socks (shutdown py (shutdown py st)) c = socks (shutdown py st) c) \<and>
   (\<forall>c. socks (cleanup py u (shutdown py st)) c = socks (shutdown py st) c) \<and>
   (\<forall>c \<in> set (client_sockets st).
      outbox (socks (shutdown py (shutdown py st)) c) =
        (if writable (socks st c) then outbox (socks st c) @ [Json shutdown_msg]
         else outbox (socks st c)))"
proof -
  have e: "client_sockets (shutdown py st) = []"
    by (simp add: shutdown_def disconnect_all_clients_clears)
  have r: "(shutdown py st)\<lparr>running := False\<rparr> = shutdown py st"
    by (rule server.equality) (simp_all add: shutdown_def disconnect_all_clients_fields)
  have i: "shutdown py (shutdown py st) = shutdown py st"
    using e r by (simp add: shutdown_def [of py "shutdown py st"] disconnect_all_clients_empty)
  have s: "shutdown py st = st\<lparr>running := False, client_sockets := [],
       socks := socks (shutdown py st)\<rparr>"
    by (rule server.equality)
      (simp_all add: shutdown_def disconnect_all_clients_fields disconnect_all_clients_clears)
  have k: "socks (cleanup py u (shutdown py st)) c = socks (shutdown py st) c" for c
    using e r by (simp add: cleanup_def Let_def disconnect_all_clients_empty split: option.splits)
  have o: "outbox (socks (shutdown py st) c) =
        (if writable (socks st c) then outbox (socks st c) @ [Json shutdown_msg]
         else outbox (socks st c))" if "c \<in> set (client_sockets st)" for c
    using that by (simp add: shutdown_def disconnect_all_clients_socks disconnect_client_eq)
  have j: "disconnect_all_clients py (shutdown py st) = shutdown py st"
    using e by (simp add: disconnect_all_clients_empty)
  show ?thesis using i j k o by auto
qed

text \<open>The same two connections after two shutdowns: one notice each.\<close>

theorem shutdown_twice_is_harmless_witness:
  "shutdown py0 (shutdown py0 srv2) = shutdown py0 srv2 \<and>
   outbox (socks (shutdown py0 (shutdown py0 srv2)) 1) = [Json shutdown_msg] \<and>
   outbox (socks (shutdown py0 (shutdown py0 srv2)) 2) = [Json shutdown_msg]"
proof -
  have cs: "client_sockets srv2 = [1, 2]" by (simp add: srv2_def)
  have w: "socks srv2 c = sock0" for c by (simp add: srv2_def srv0_def init_server_def)
  note t = shutdown_twice_is_harmless [where py = py0 and st = srv2 and u = True]
  show ?thesis using t by (auto simp add: cs w writable_def sock0_def)
qed

lemma cleanup_fields:
  "running (cleanup py u st) = False \<and>
   client_sockets (cleanup py u st) = [] \<and>
   server_socket (cleanup py u st) \<noteq> Some Open \<and>
   socket_file (cleanup py u st) = (if u then Absent else socket_file st)"
  by (simp add: cleanup_def Let_def disconnect_all_clients_clears disconnect_all_clients_fields
      split: option.splits)

lemma start_setup_fails:
  assumes "(socket_file st \<noteq> Absent \<and> \<not> unlink_ok env) \<or> \<not> socket_ok env \<or> \<not> bind_ok env \<or>
           \<not> listen_ok env"
  shows "\<exists>failed. start_setup env st = Inl failed \<and>
           socket_file failed =
             (if socket_file st \<noteq> Absent \<and> \<not> unlink_ok env then socket_file st
              else if \<not> socket_ok env \<or> \<not> bind_ok env then Absent else Bound)"
  using assms by (auto simp: start_setup_def Let_def)

lemma start_ends_in_cleanup:
  "start py env evs st = Some (code, s) \<Longrightarrow> \<exists>t. s = cleanup py (cleanup_unlink_ok env) t"
  by (auto simp: start_def split: sum.splits option.splits prod.splits)

text \<open>
  C8. When the setup of \<^verbatim>\<open>start\<close> fails (the file at the path cannot be removed,
  the socket cannot be created, \<^verbatim>\<open>bind\<close> or \<^verbatim>\<open>listen\<close> fails), \<^verbatim>\<open>start\<close> returns
  1, whatever would have come on the listening socket, and the state it leaves
  is the one \<^verbatim>\<open>cleanup\<close> makes of the state at the failure: not running, no
  connection registered, the server socket closed if it was created. If the
  failure is that of the path or of \<^verbatim>\<open>bind\<close>, no socket file of this server is at
  the path afterwards; and whenever the \<^verbatim>\<open>unlink\<close> of the teardown is allowed,
  nothing is at the path. Every return of \<^verbatim>\<open>start\<close>, with code 0 or 1, goes
  through the same \<^verbatim>\<open>cleanup\<close>.
\<close>

theorem startup_failure_reports_and_tears_down:
  assumes "(socket_file st \<noteq> Absent \<and> \<not> unlink_ok env) \<or> \<not> socket_ok env \<or> \<not> bind_ok env \<or>
           \<not> listen_ok env"
  shows "\<exists>failed st'.
           start_setup env st = Inl failed \<and>
           st' = cleanup py (cleanup_unlink_ok env) failed \<and>
           start py env evs st = Some (1, st') \<and>
           \<not> running st' \<and> client_sockets st' = [] \<and> server_socket st' \<noteq> Some Open \<and>
           (socket_file st \<noteq> Bound \<and>
            ((socket_file st \<noteq> Absent \<and> \<not> unlink_ok env) \<or> \<not> socket_ok env \<or> \<not> bind_ok env)
              \<longrightarrow> socket_file st' \<noteq> Bound) \<and>
           (cleanup_unlink_ok env \<longrightarrow> socket_file st' = Absent) \<and>
           (\<forall>env2 evs2 st2 code s2.
              start py env2 evs2 st2 = Some (code, s2) \<longrightarrow>
                (\<exists>t. s2 = cleanup py (cleanup_unlink_ok env2) t))"
proof -
  from start_setup_fails [OF assms] obtain failed where
    f: "start_setup env st = Inl failed"
    and g: "socket_file failed =
             (if socket_file st \<noteq> Absent \<and> \<not> unlink_ok env then socket_file st
              else if \<not> socket_ok env \<or> \<not> bind_ok env then Absent else Bound)"
    by blast
  let ?st' = "cleanup py (cleanup_unlink_ok env) failed"
  have s: "start py env evs st = Some (1, ?st')" using f by (simp add: start_def)
  have c: "\<not> running ?st' \<and> client_sockets ?st' = [] \<and> server_socket ?st' \<noteq> Some Open"
    using cleanup_fields [of py "cleanup_unlink_ok env" failed] by simp
  have b: "socket_file st \<noteq> Bound \<and>
            ((socket_file st \<noteq> Absent \<and> \<not> unlink_ok env) \<or> \<not> socket_ok env \<or> \<not> bind_ok env)
              \<longrightarrow> socket_file ?st' \<noteq> Bound"
    using g by (auto simp: cleanup_fields)
  have a: "cleanup_unlink_ok env \<longrightarrow> socket_file ?st' = Absent"
    by (simp add: cleanup_fields)
  have e: "\<forall>env2 evs2 st2 code s2.
              start py env2 evs2 st2 = Some (code, s2) \<longrightarrow>
                (\<exists>t. s2 = cleanup py (cleanup_unlink_ok env2) t)"
    using start_ends_in_cleanup by blast
  show ?thesis using f s c b a e by blast
qed

text \<open>A stale file at the path is removed, then \<^verbatim>\<open>bind\<close> fails.\<close>

theorem startup_failure_reports_and_tears_down_witness:
  "start py0 env_bind_fails [] (init_server (\<lambda>c. sock0) Stale) =
     Some (1, \<lparr>running = False, client_sockets = [], client_threads = [],
               server_socket = Some Closed, socks = (\<lambda>c. sock0), socket_file = Absent\<rparr>)"
proof -
  have h: "(socket_file (init_server (\<lambda>c. sock0) Stale) \<noteq> Absent \<and> \<not> unlink_ok env_bind_fails) \<or>
           \<not> socket_ok env_bind_fails \<or> \<not> bind_ok env_bind_fails \<or> \<not> listen_ok env_bind_fails"
    by (simp add: env_bind_fails_def)
  have su: "start_setup env_bind_fails (init_server (\<lambda>c. sock0) Stale) =
      Inl \<lparr>running = False, client_sockets = [], client_threads = [],
           server_socket = Some Open, socks = (\<lambda>c. sock0), socket_file = Absent\<rparr>"
    by (simp add: start_setup_def env_bind_fails_def init_server_def)
  have cl: "cleanup py0 (cleanup_unlink_ok env_bind_fails)
       \<lparr>running = False, client_sockets = [], client_threads = [],
        server_socket = Some Open, socks = (\<lambda>c. sock0), socket_file = Absent\<rparr> =
      \<lparr>running = False, client_sockets = [], client_threads = [],
       server_socket = Some Closed, socks = (\<lambda>c. sock0), socket_file = Absent\<rparr>"
    by (simp add: cleanup_def disconnect_all_clients_def notify_all_def)
  from startup_failure_reports_and_tears_down [OF h, of py0 "[]"]
  obtain failed st' where
    "start_setup env_bind_fails (init_server (\<lambda>c. sock0) Stale) = Inl failed"
    "st' = cleanup py0 (cleanup_unlink_ok env_bind_fails) failed"
    "start py0 env_bind_fails [] (init_server (\<lambda>c. sock0) Stale) = Some (1, st')"
    by blast
  then show ?thesis using su cl by auto
qed

lemma session_step_registry:
  "client_sockets (fst (session_step py M c ev st)) = client_sockets st"
  by (simp add: session_step_def split: prod.splits)

lemma reach_invariant:
  "reach py M bc st ph \<Longrightarrow>
   distinct (client_sockets st) \<and>
   (\<forall>c \<in> set (client_sockets st). ph c = InSession) \<and>
   (\<not> bc \<longrightarrow> (\<forall>c. ph c = InSession \<longrightarrow> c \<in> set (client_sockets st)))"
proof (induction rule: reach.induct)
  case (init ss f)
  then show ?case by (simp add: init_server_def)
next
  case (listening st ph)
  then show ?case by simp
next
  case (enter st ph c)
  then show ?case by (auto simp: session_enter_def)
next
  case (pass st ph c ev)
  then show ?case by (simp add: session_step_registry)
next
  case (leave st ph c)
  then show ?case by (auto simp: session_exit_def)
next
  case (stop st ph)
  then show ?case by simp
next
  case (notify st ph c)
  then show ?case by simp
next
  case (clear st ph)
  then show ?case by simp
qed

text \<open>
  C9, as the code has it. In every state the threads can reach,
  \<^verbatim>\<open>client_sockets\<close> holds no connection twice and holds only connections whose
  session is between its entry and its exit. As long as no broadcast step
  occurs, it holds all of them. The removal in the \<^verbatim>\<open>finally\<close> leaves the list
  as it is when the connection is not in it, after it the connection is not in
  the list, and a second removal changes nothing.
\<close>

theorem registry_holds_sessions_in_progress:
  assumes "reach py M bc st ph"
  shows "distinct (client_sockets st) \<and>
         (\<forall>c \<in> set (client_sockets st). ph c = InSession) \<and>
         (\<not> bc \<longrightarrow> (\<forall>c. ph c = InSession \<longrightarrow> c \<in> set (client_sockets st))) \<and>
         (c \<notin> set (client_sockets st) \<longrightarrow>
            client_sockets (session_exit c st) = client_sockets st) \<and>
         c \<notin> set (client_sockets (session_exit c st)) \<and>
         client_sockets (session_exit c (session_exit c st)) = client_sockets (session_exit c st)"
proof -
  note inv = reach_invariant [OF assms]
  have a: "c \<notin> set (client_sockets st) \<longrightarrow> client_sockets (session_exit c st) = client_sockets st"
    by (simp add: session_exit_def)
  have b: "c \<notin> set (client_sockets (session_exit c st))"
    using inv by (simp add: session_exit_def)
  have d: "client_sockets (session_exit c (session_exit c st)) = client_sockets (session_exit c st)"
    using b by (simp add: session_exit_def [of c "session_exit c st"])
  show ?thesis using inv a b d by blast
qed

text \<open>One session enters, then leaves, then leaves again.\<close>

theorem registry_holds_sessions_in_progress_witness:
  "reach py0 M0 False (session_enter 0 (init_server (\<lambda>c. sock0) Absent))
     ((\<lambda>c. NotStarted)(0 := InSession)) \<and>
   client_sockets (session_enter 0 (init_server (\<lambda>c. sock0) Absent)) = [0] \<and>
   client_sockets (session_exit 0 (session_enter 0 (init_server (\<lambda>c. sock0) Absent))) = [] \<and>
   client_sockets (session_exit 0 (session_exit 0
     (session_enter 0 (init_server (\<lambda>c. sock0) Absent)))) = []"
proof -
  have r: "reach py0 M0 False (session_enter 0 (init_server (\<lambda>c. sock0) Absent))
     ((\<lambda>c. NotStarted)(0 := InSession))"
    by (rule reach.enter [OF reach.init]) simp
  note t = registry_holds_sessions_in_progress [OF r, of 0]
  have e: "client_sockets (session_exit 0 (session_enter 0 (init_server (\<lambda>c. sock0) Absent))) = []"
    by (simp add: session_exit_def session_enter_def init_server_def)
  show ?thesis using r t e by (simp add: session_enter_def init_server_def)
qed

text \<open>
  C9 as stated fails once the broadcast has cleared the list: the session of
  connection 0 has entered and has not left, and its connection is not
  registered.
\<close>

theorem registry_cleared_counterexample:
  "reach py0 M0 True ((session_enter 0 (init_server (\<lambda>c. sock0) Absent))\<lparr>client_sockets := []\<rparr>)
     ((\<lambda>c. NotStarted)(0 := InSession)) \<and>
   ((\<lambda>c. NotStarted)(0 := InSession)) (0::nat) = InSession \<and>
   0 \<notin> set (client_sockets
     ((session_enter 0 (init_server (\<lambda>c. sock0) Absent))\<lparr>client_sockets := []\<rparr>))"
proof -
  have r: "reach py0 M0 True (session_enter 0 (init_server (\<lambda>c. sock0) Absent))
     ((\<lambda>c. NotStarted)(0 := InSession))"
    by (rule reach.enter [OF reach.init]) simp
  have "reach py0 M0 True
     ((session_enter 0 (init_server (\<lambda>c. sock0) Absent))\<lparr>client_sockets := []\<rparr>)
     ((\<lambda>c. NotStarted)(0 := InSession))"
    by (rule reach.clear [OF r]) simp
  then show ?thesis by simp
qed

text \<open>
  C4, as the code has it. A request that decodes to a JSON object whose
  \<^verbatim>\<open>method\<close> is absent or empty (or any other value Python takes as false) is
  answered by the dispatcher with exactly
  \<^verbatim>\<open>{"success": false, "error": "No 'method' provided."}\<close>; the session writes that
  envelope (with the request's id when it has a truthy one) on a connection
  that takes the write, does not close the connection, and the loop goes on
  with the next read.
\<close>

theorem missing_method_is_recoverable:
  assumes "data \<noteq> []" and "writable s"
    and "decode_json py data = Inr (PDict kvs)" and "serializable (PDict kvs)"
    and "\<not> truthy (dict_get kvs ''method'' PNone)"
    and "reply = (if truthy (dict_get kvs ''request_id'' PNone)
                  then PDict [(''success'', PBool False),
                              (''error'', PStr ''No 'method' provided.''),
                              (''request_id'', dict_get kvs ''request_id'' PNone)]
                  else PDict [(''success'', PBool False),
                              (''error'', PStr ''No 'method' provided.'')])"
    and "s' = s\<lparr>outbox := outbox s @ [Json reply]\<rparr>"
  shows "handle_request py M (PDict kvs) =
           Inr (PDict [(''success'', PBool False), (''error'', PStr ''No 'method' provided.'')]) \<and>
         session_iter py M (RecvData data) s = (s', Continue) \<and>
         \<not> closed s' \<and>
         (running st \<and> socks st c = s \<longrightarrow>
            session_loop py M c (RecvData data # evs) st =
              session_loop py M c evs (st\<lparr>socks := (socks st)(c := s')\<rparr>))"
proof -
  have hr: "handle_request py M (PDict kvs) = Inr (error_envelope ''No 'method' provided.'')"
    using assms(5) by (rule handle_request_no_method)
  have rp: "reply = (if truthy (dict_get kvs ''request_id'' PNone)
                  then PDict [(''success'', PBool False),
                              (''error'', PStr ''No 'method' provided.''),
                              (''request_id'', dict_get kvs ''request_id'' PNone)]
                  else error_envelope ''No 'method' provided.'')"
    using assms(6) by (simp add: error_envelope_def)
  have ser: "serializable reply"
    using assms(4) rp by (simp add: serializable_dict_get serializable_error_envelope)
  have echo: "echo_request_id py (dict_get kvs ''request_id'' PNone)
                (error_envelope ''No 'method' provided.'') = Inr reply"
    using rp by (simp add: echo_envelope)
  have it: "session_iter py M (RecvData data) s = (s', Continue)"
    using session_iter_reply [OF assms(1,2,3) hr echo ser] assms(7) by simp
  have op: "\<not> closed s'" using assms(2,7) by (simp add: writable_def)
  have lp: "running st \<and> socks st c = s \<longrightarrow>
            session_loop py M c (RecvData data # evs) st =
              session_loop py M c evs (st\<lparr>socks := (socks st)(c := s')\<rparr>)"
    using it by (simp add: session_step_def)
  show ?thesis using hr it op lp by (simp add: error_envelope_def)
qed

text \<open>The request \<^verbatim>\<open>{}\<close>, followed by the end of the connection.\<close>

theorem missing_method_is_recoverable_witness:
  "handle_request py0 M0 (PDict []) =
     Inr (PDict [(''success'', PBool False), (''error'', PStr ''No 'method' provided.'')]) \<and>
   session_iter py0 M0 (RecvData (ascii ''{}'')) sock0 =
     (sock0\<lparr>outbox := [Json (PDict [(''success'', PBool False),
                                     (''error'', PStr ''No 'method' provided.'')])]\<rparr>,
      Continue) \<and>
   session_loop py0 M0 0 [RecvData (ascii ''{}''), RecvData []] srv0 =
     Some (srv0\<lparr>socks := (socks srv0)
       (0 := sock0\<lparr>outbox := [Json (PDict [(''success'', PBool False),
                                            (''error'', PStr ''No 'method' provided.'')])]\<rparr>)\<rparr>)"
proof -
  have d: "decode_json py0 (ascii ''{}'') = Inr (PDict [])"
    by (simp add: decode_json_def valid_utf8_def ascii_def py0_def sample_loads_def)
  have w: "writable sock0" by (simp add: writable_def sock0_def)
  have n: "ascii ''{}'' \<noteq> []" by (simp add: ascii_def)
  have m: "\<not> truthy (dict_get [] ''method'' PNone)" by (simp add: dict_get_def)
  have r: "running srv0 \<and> socks srv0 0 = sock0" by (simp add: srv0_def init_server_def)
  note t = missing_method_is_recoverable [OF n w d _ m refl refl, of M0 srv0 0 "[RecvData []]"]
  show ?thesis using t r
    by (simp add: dict_get_def sock0_def session_step_def session_iter_def srv0_def init_server_def)
qed

text \<open>
  C4 as stated fails on the request \<^verbatim>\<open>null\<close>: it parses as JSON and has no
  \<^verbatim>\<open>method\<close>, but line 122 raises \<^verbatim>\<open>AttributeError\<close>, the envelope is the
  server-error one and the loop breaks.
\<close>

theorem non_object_request_counterexample:
  "decode_json py0 (ascii ''null'') = Inr PNone \<and>
   session_iter py0 M0 (RecvData (ascii ''null'')) sock0 =
     (sock0\<lparr>outbox := [Json (PDict [(''success'', PBool False),
        (''error'', PStr (''Server error: '' @ sq @ ''NoneType'' @ sq @
                         '' object has no attribute '' @ sq @ ''get'' @ sq))])]\<rparr>, Break)"
  by (simp add: decode_json_def valid_utf8_def ascii_def py0_def sample_loads_def
      session_iter_def process_request_def send_json_def json_dumps_def sendall_def
      error_envelope_def sock0_def)

lemma session_iter_process_error:
  assumes "data \<noteq> []" "writable s" "process_request py M data s = Inl e"
  shows "session_iter py M (RecvData data) s =
           (s\<lparr>outbox := outbox s @
              [Json (PDict [(''success'', PBool False),
                 (''error'', PStr (case e of JSONDecodeError d \<Rightarrow> ''Invalid JSON format''
                                   | _ \<Rightarrow> ''Server error: '' @ str_exn e))])]\<rparr>, Break)"
proof -
  have nc: "\<not> closed s" using assms(2) by (simp add: writable_def)
  have a: "send_json py s (error_envelope msg) =
             Inr (s\<lparr>outbox := outbox s @ [Json (error_envelope msg)]\<rparr>)" for msg
    using assms(2) by (simp add: send_json_writable serializable_error_envelope)
  show ?thesis
    using assms(1,3) nc
    by (cases e) (simp_all add: session_iter_def a, simp_all add: error_envelope_def)
qed

text \<open>
  C3, as the code has it. Bytes that are not empty and whose decoding raises
  end the session after exactly one envelope, on a connection that takes the
  write: \<^verbatim>\<open>{"success": false, "error": "Invalid JSON format"}\<close> when the exception
  is \<^verbatim>\<open>JSONDecodeError\<close>, and \<^verbatim>\<open>{"success": false, "error": "Server error: <detail>"}\<close>
  when it is any other exception, caught by the clause of line 136. Bytes that
  are not UTF-8 are always of the second kind. In both cases the loop breaks
  and the \<^verbatim>\<open>finally\<close> closes the connection.
\<close>

theorem undecodable_bytes_end_session:
  assumes "data \<noteq> []" and "writable s"
    and "decode_json py data = Inl e"
    and "message = (case e of JSONDecodeError d \<Rightarrow> ''Invalid JSON format''
                    | _ \<Rightarrow> ''Server error: '' @ str_exn e)"
    and "s' = s\<lparr>outbox := outbox s @
                 [Json (PDict [(''success'', PBool False), (''error'', PStr message)])]\<rparr>"
  shows "session_iter py M (RecvData data) s = (s', Break) \<and>
         (running st \<and> socks st c = s \<and> c \<notin> set (client_sockets st) \<longrightarrow>
            handle_client py M c (RecvData data # evs) st =
              Some (st\<lparr>socks := (socks st)(c := s'\<lparr>closed := True\<rparr>)\<rparr>)) \<and>
         (\<not> valid_utf8 data \<longrightarrow>
            message = ''Server error: '' @ py_detail py BadUtf8 PNone)"
proof -
  have it: "session_iter py M (RecvData data) s = (s', Break)"
    using session_iter_process_error [OF assms(1,2) process_request_undecoded [OF assms(3)]]
      assms(4,5) by simp
  have hc: "running st \<and> socks st c = s \<and> c \<notin> set (client_sockets st) \<longrightarrow>
            handle_client py M c (RecvData data # evs) st =
              Some (st\<lparr>socks := (socks st)(c := s'\<lparr>closed := True\<rparr>)\<rparr>)"
    using it handle_client_ends [of st c py M "RecvData data" s' evs]
    by (auto simp: sock_close_def)
  have u: "\<not> valid_utf8 data \<longrightarrow> message = ''Server error: '' @ py_detail py BadUtf8 PNone"
    using assms(3,4) by (auto simp: decode_json_def)
  show ?thesis using it hc u by blast
qed

text \<open>The bytes \<^verbatim>\<open>{not json\<close>, and the single byte \<^verbatim>\<open>0xff\<close>.\<close>

theorem undecodable_bytes_end_session_witness:
  "session_iter py0 M0 (RecvData (ascii ''{not json'')) sock0 =
     (sock0\<lparr>outbox := [Json (PDict [(''success'', PBool False),
                                     (''error'', PStr ''Invalid JSON format'')])]\<rparr>, Break) \<and>
   handle_client py0 M0 0 [RecvData (ascii ''{not json'')] srv0 =
     Some (srv0\<lparr>socks := (socks srv0)
             (0 := \<lparr>closed = True, peer_gone = False,
                    outbox = [Json (PDict [(''success'', PBool False),
                                           (''error'', PStr ''Invalid JSON format'')])]\<rparr>)\<rparr>) \<and>
   handle_client py0 M0 0 [RecvData [0xFF]] srv0 =
     Some (srv0\<lparr>socks := (socks srv0)
             (0 := \<lparr>closed = True, peer_gone = False,
                    outbox = [Json (PDict [(''success'', PBool False),
                      (''error'', PStr (''Server error: '' @ sq @ ''utf-8'' @ sq @
         '' codec can't decode byte 0xff in position 0: invalid start byte''))])]\<rparr>)\<rparr>)"
proof -
  have d: "decode_json py0 (ascii ''{not json'') =
      Inl (JSONDecodeError ''Expecting property name enclosed in double quotes'')"
    by (simp add: decode_json_def valid_utf8_def ascii_def py0_def sample_loads_def)
  have d2: "decode_json py0 [0xFF] = Inl (UnicodeDecodeError (sample_detail BadUtf8 PNone))"
    by (simp add: decode_json_def valid_utf8_def py0_def)
  have w: "writable sock0" by (simp add: writable_def sock0_def)
  have n: "ascii ''{not json'' \<noteq> []" by (simp add: ascii_def)
  have n2: "[0xFF :: byte] \<noteq> []" by simp
  have r: "running srv0 \<and> socks srv0 0 = sock0 \<and> 0 \<notin> set (client_sockets srv0)"
    by (simp add: srv0_def init_server_def)
  note t = undecodable_bytes_end_session [OF n w d refl refl, of M0 srv0 0 "[]"]
  note t2 = undecodable_bytes_end_session [OF n2 w d2 refl refl, of M0 srv0 0 "[]"]
  show ?thesis using t t2 r by (simp add: sock0_def)
qed

text \<open>
  C3 as stated fails on the single byte \<^verbatim>\<open>0xff\<close>: it is not UTF-8, and the
  envelope written is the server-error one.
\<close>

theorem invalid_utf8_counterexample:
  "\<not> valid_utf8 [0xFF] \<and>
   session_iter py0 M0 (RecvData [0xFF]) sock0 =
     (sock0\<lparr>outbox := [Json (PDict [(''success'', PBool False),
        (''error'', PStr (''Server error: '' @ sq @ ''utf-8'' @ sq @
         '' codec can't decode byte 0xff in position 0: invalid start byte''))])]\<rparr>, Break) \<and>
   outbox (fst (session_iter py0 M0 (RecvData [0xFF]) sock0)) \<noteq>
     [Json (PDict [(''success'', PBool False), (''error'', PStr ''Invalid JSON format'')])]"
  by (simp add: valid_utf8_def session_iter_def process_request_def decode_json_def
      send_json_def json_dumps_def sendall_def error_envelope_def sock0_def py0_def sq_def)

text \<open>
  C6. \<^verbatim>\<open>disconnect_all_clients\<close> works on the list of connections registered when
  it starts. On each of them it calls \<^verbatim>\<open>sendall\<close> with the notice
  \<^verbatim>\<open>{"success": false, "error": "Server shutting down", "shutdown": true}\<close> and
  closes the connection after that: a connection that takes the write has the
  notice as its last message, one that is already closed or whose peer is gone
  gets nothing, and all are closed, so that no later write reaches them.
  Connections outside the list are left alone, and the list is empty
  afterwards.
\<close>

theorem broadcast_notifies_then_closes:
  assumes "st' = disconnect_all_clients py st"
    and "notice = Json (PDict [(''success'', PBool False),
                               (''error'', PStr ''Server shutting down''),
                               (''shutdown'', PBool True)])"
  shows "client_sockets st' = [] \<and>
         (\<forall>c \<in> set (client_sockets st).
            socks st' c =
              sock_close (case sendall (socks st c) notice of
                            Inr s' \<Rightarrow> s' | Inl e \<Rightarrow> socks st c) \<and>
            closed (socks st' c) \<and>
            outbox (socks st' c) =
              (if writable (socks st c) then outbox (socks st c) @ [notice]
               else outbox (socks st c)) \<and>
            sendall (socks st' c) notice = Inl (OSError ''[Errno 9] Bad file descriptor'')) \<and>
         (\<forall>c. c \<notin> set (client_sockets st) \<longrightarrow> socks st' c = socks st c)"
proof -
  have n: "notice = Json shutdown_msg" using assms(2) by (simp add: shutdown_msg_def)
  have a: "client_sockets st' = []" using assms(1) by (simp add: disconnect_all_clients_clears)
  have b: "socks st' c = disconnect_client py (socks st c)" if "c \<in> set (client_sockets st)" for c
    using that assms(1) by (simp add: disconnect_all_clients_socks)
  have c: "socks st' c = socks st c" if "c \<notin> set (client_sockets st)" for c
    using that assms(1) by (simp add: disconnect_all_clients_socks)
  have d: "disconnect_client py s =
             sock_close (case sendall s notice of Inr s' \<Rightarrow> s' | Inl e \<Rightarrow> s)" for s
    by (simp add: n disconnect_client_def send_json_def json_dumps_def serializable_shutdown_msg
        split: sum.splits)
  have e: "socks st' c =
              sock_close (case sendall (socks st c) notice of
                            Inr s' \<Rightarrow> s' | Inl e \<Rightarrow> socks st c) \<and>
            closed (socks st' c) \<and>
            outbox (socks st' c) =
              (if writable (socks st c) then outbox (socks st c) @ [notice]
               else outbox (socks st c)) \<and>
            sendall (socks st' c) notice = Inl (OSError ''[Errno 9] Bad file descriptor'')"
    if "c \<in> set (client_sockets st)" for c
  proof -
    have 1: "socks st' c =
              sock_close (case sendall (socks st c) notice of
                            Inr s' \<Rightarrow> s' | Inl e \<Rightarrow> socks st c)"
      using b [OF that] d [of "socks st c"] by simp
    have 2: "closed (socks st' c)"
      using b [OF that] by (simp add: disconnect_client_eq)
    have 3: "outbox (socks st' c) =
              (if writable (socks st c) then outbox (socks st c) @ [notice]
               else outbox (socks st c))"
      using b [OF that] by (simp add: n disconnect_client_eq)
    have 4: "sendall (socks st' c) notice = Inl (OSError ''[Errno 9] Bad file descriptor'')"
      using 2 by (simp add: sendall_def)
    show ?thesis using 1 2 3 4 by blast
  qed
  show ?thesis using a c e by blast
qed

text \<open>Two registered connections, both notified and closed; a third one untouched.\<close>

theorem broadcast_notifies_then_closes_witness:
  "client_sockets (disconnect_all_clients py0 srv2) = [] \<and>
   socks (disconnect_all_clients py0 srv2) 1 =
     \<lparr>closed = True, peer_gone = False,
      outbox = [Json (PDict [(''success'', PBool False),
                             (''error'', PStr ''Server shutting down''),
                             (''shutdown'', PBool True)])]\<rparr> \<and>
   socks (disconnect_all_clients py0 srv2) 2 =
     \<lparr>closed = True, peer_gone = False,
      outbox = [Json (PDict [(''success'', PBool False),
                             (''error'', PStr ''Server shutting down''),
                             (''shutdown'', PBool True)])]\<rparr> \<and>
   socks (disconnect_all_clients py0 srv2) 3 = sock0"
  using broadcast_notifies_then_closes [OF refl refl, of py0 srv2]
  by (simp add: srv2_def srv0_def init_server_def sock0_def writable_def sendall_def
      sock_close_def)

text \<open>
  C10, as the code has it. Three ways into the clause of line 136 after the
  bytes have decoded: the decoded value is no JSON object, so \<^verbatim>\<open>.get\<close> raises;
  the request has a truthy id and the handler's value is no dict, so it cannot
  take the \<^verbatim>\<open>request_id\<close> key of line 125; the value to write cannot be
  serialised. Each time the session writes
  \<^verbatim>\<open>{"success": false, "error": "Server error: <detail>"}\<close> if the connection takes
  the write, nothing otherwise, and leaves the loop; the \<^verbatim>\<open>finally\<close> closes the
  connection. The envelope differs from every other envelope of the server.
  When the request has no truthy id, line 125 is not run: a handler's value
  that can be serialised is written as it is, dict or not, and the session
  goes on.
\<close>

theorem server_error_ends_session:
  assumes "data \<noteq> []" and "\<not> closed s"
    and "decode_json py data = Inr v"
    and "(\<forall>kvs. v \<noteq> PDict kvs) \<and> detail = py_detail py NoGetAttr v
         \<or> (\<exists>kvs m h result rid.
               v = PDict kvs \<and> dict_get kvs ''method'' PNone = PStr m \<and> m \<noteq> [] \<and>
               M m = Some h \<and>
               call_handler py h (dict_get kvs ''args'' (PList [])) = Inr result \<and>
               rid = dict_get kvs ''request_id'' PNone \<and>
               (truthy rid \<and> (\<forall>r. result \<noteq> PDict r) \<and>
                  detail = py_detail py NoItemAssign result
                \<or> \<not> truthy rid \<and> \<not> serializable result \<and>
                  detail = py_detail py NotSerializable result
                \<or> truthy rid \<and>
                  (\<exists>r. result = PDict r \<and>
                       \<not> serializable (PDict (dict_set ''request_id'' rid r)) \<and>
                       detail = py_detail py NotSerializable
                                  (PDict (dict_set ''request_id'' rid r)))))"
    and "envelope = PDict [(''success'', PBool False),
                           (''error'', PStr (''Server error: '' @ detail))]"
    and "s' = (if writable s then s\<lparr>outbox := outbox s @ [Json envelope]\<rparr> else s)"
  shows "session_iter py M (RecvData data) s = (s', Break) \<and>
         (running st \<and> socks st c = s \<and> c \<notin> set (client_sockets st) \<longrightarrow>
            handle_client py M c (RecvData data # evs) st =
              Some (st\<lparr>socks := (socks st)(c := s'\<lparr>closed := True\<rparr>)\<rparr>)) \<and>
         envelope \<noteq> PDict [(''success'', PBool False), (''error'', PStr ''Invalid JSON format'')] \<and>
         envelope \<noteq> PDict [(''success'', PBool False), (''error'', PStr ''No 'method' provided.'')] \<and>
         envelope \<noteq> PDict [(''success'', PBool False),
                            (''error'', PStr (''No such method: '' @ x))] \<and>
         envelope \<noteq> PDict [(''success'', PBool False),
                            (''error'', PStr (''Invalid arguments '' @ y))] \<and>
         envelope \<noteq> PDict [(''success'', PBool False), (''error'', PStr (''Method '' @ z))] \<and>
         envelope \<noteq> PDict [(''success'', PBool False), (''error'', PStr ''Server shutting down''),
                            (''shutdown'', PBool True)] \<and>
         (data2 \<noteq> [] \<and> writable s2 \<and> decode_json py data2 = Inr (PDict kvs2) \<and>
          dict_get kvs2 ''method'' PNone = PStr m2 \<and> m2 \<noteq> [] \<and> M m2 = Some h2 \<and>
          call_handler py h2 (dict_get kvs2 ''args'' (PList [])) = Inr result2 \<and>
          \<not> truthy (dict_get kvs2 ''request_id'' PNone) \<and> serializable result2 \<longrightarrow>
            session_iter py M (RecvData data2) s2 =
              (s2\<lparr>outbox := outbox s2 @ [Json result2]\<rparr>, Continue))"
proof -
  have "\<exists>e. process_request py M data s = Inl e \<and> (\<forall>d. e \<noteq> JSONDecodeError d) \<and>
             str_exn e = detail"
    using assms(4)
  proof (elim disjE conjE exE)
    assume "\<forall>kvs. v \<noteq> PDict kvs" "detail = py_detail py NoGetAttr v"
    then show ?thesis using process_request_not_dict [OF assms(3)] by simp
  next
    fix kvs m h result rid
    assume h: "v = PDict kvs" "dict_get kvs ''method'' PNone = PStr m" "m \<noteq> []" "M m = Some h"
      "call_handler py h (dict_get kvs ''args'' (PList [])) = Inr result"
      "rid = dict_get kvs ''request_id'' PNone"
      "truthy rid" "\<forall>r. result \<noteq> PDict r" "detail = py_detail py NoItemAssign result"
    have hr: "handle_request py M (PDict kvs) = Inr result"
      using handle_request_found [of kvs m M h py] h(2-5) by simp
    have "echo_request_id py rid result = Inl (TypeError (py_detail py NoItemAssign result))"
      using h(7,8) by (cases result) (simp_all add: echo_request_id_def)
    then show ?thesis
      using assms(3) h(1,6,9) hr by (simp add: process_request_dict)
  next
    fix kvs m h result rid
    assume h: "v = PDict kvs" "dict_get kvs ''method'' PNone = PStr m" "m \<noteq> []" "M m = Some h"
      "call_handler py h (dict_get kvs ''args'' (PList [])) = Inr result"
      "rid = dict_get kvs ''request_id'' PNone"
      "\<not> truthy rid" "\<not> serializable result" "detail = py_detail py NotSerializable result"
    have hr: "handle_request py M (PDict kvs) = Inr result"
      using handle_request_found [of kvs m M h py] h(2-5) by simp
    have "echo_request_id py rid result = Inr result"
      using h(7) by (simp add: echo_request_id_def)
    then show ?thesis
      using assms(3) h(1,6,8,9) hr
      by (simp add: process_request_dict send_json_not_serializable)
  next
    fix kvs m h result rid r
    assume h: "v = PDict kvs" "dict_get kvs ''method'' PNone = PStr m" "m \<noteq> []" "M m = Some h"
      "call_handler py h (dict_get kvs ''args'' (PList [])) = Inr result"
      "rid = dict_get kvs ''request_id'' PNone"
      "truthy rid" "result = PDict r"
      "\<not> serializable (PDict (dict_set ''request_id'' rid r))"
      "detail = py_detail py NotSerializable (PDict (dict_set ''request_id'' rid r))"
    have hr: "handle_request py M (PDict kvs) = Inr result"
      using handle_request_found [of kvs m M h py] h(2-5) by simp
    have echo: "echo_request_id py rid result = Inr (PDict (dict_set ''request_id'' rid r))"
      using h(7,8) by (simp add: echo_request_id_def)
    have sj: "send_json py s (PDict (dict_set ''request_id'' rid r)) =
                Inl (TypeError (py_detail py NotSerializable
                                  (PDict (dict_set ''request_id'' rid r))))"
      by (rule send_json_not_serializable [OF h(9)])
    show ?thesis
      using assms(3) h(1,6,10) hr echo sj by (simp add: process_request_dict)
  qed
  then obtain e where e: "process_request py M data s = Inl e" "\<forall>d. e \<noteq> JSONDecodeError d"
    "str_exn e = detail" by blast
  have env: "envelope = error_envelope (''Server error: '' @ detail)"
    using assms(5) by (simp add: error_envelope_def)
  have it: "session_iter py M (RecvData data) s = (s', Break)"
    using session_iter_server_error [OF assms(1,2) e(1,2)] e(3) assms(6) env by simp
  have hc: "running st \<and> socks st c = s \<and> c \<notin> set (client_sockets st) \<longrightarrow>
            handle_client py M c (RecvData data # evs) st =
              Some (st\<lparr>socks := (socks st)(c := s'\<lparr>closed := True\<rparr>)\<rparr>)"
    using it handle_client_ends [of st c py M "RecvData data" s' evs]
    by (auto simp: sock_close_def)
  have ne: "envelope \<noteq> PDict [(''success'', PBool False), (''error'', PStr ''Invalid JSON format'')] \<and>
         envelope \<noteq> PDict [(''success'', PBool False), (''error'', PStr ''No 'method' provided.'')] \<and>
         envelope \<noteq> PDict [(''success'', PBool False),
                            (''error'', PStr (''No such method: '' @ x))] \<and>
         envelope \<noteq> PDict [(''success'', PBool False),
                            (''error'', PStr (''Invalid arguments '' @ y))] \<and>
         envelope \<noteq> PDict [(''success'', PBool False), (''error'', PStr (''Method '' @ z))] \<and>
         envelope \<noteq> PDict [(''success'', PBool False), (''error'', PStr ''Server shutting down''),
                            (''shutdown'', PBool True)]"
    using assms(5) by simp
  have ok: "session_iter py M (RecvData data2) s2 =
              (s2\<lparr>outbox := outbox s2 @ [Json result2]\<rparr>, Continue)"
    if k: "data2 \<noteq> []" "writable s2" "decode_json py data2 = Inr (PDict kvs2)"
      "dict_get kvs2 ''method'' PNone = PStr m2" "m2 \<noteq> []" "M m2 = Some h2"
      "call_handler py h2 (dict_get kvs2 ''args'' (PList [])) = Inr result2"
      "\<not> truthy (dict_get kvs2 ''request_id'' PNone)" "serializable result2"
  proof -
    have hr: "handle_request py M (PDict kvs2) = Inr result2"
      using handle_request_found [of kvs2 m2 M h2 py] k(4-7) by simp
    have echo: "echo_request_id py (dict_get kvs2 ''request_id'' PNone) result2 = Inr result2"
      using k(8) by (simp add: echo_request_id_def)
    show ?thesis by (rule session_iter_reply [OF k(1,2,3) hr echo k(9)])
  qed
  have ok': "data2 \<noteq> [] \<and> writable s2 \<and> decode_json py data2 = Inr (PDict kvs2) \<and>
          dict_get kvs2 ''method'' PNone = PStr m2 \<and> m2 \<noteq> [] \<and> M m2 = Some h2 \<and>
          call_handler py h2 (dict_get kvs2 ''args'' (PList [])) = Inr result2 \<and>
          \<not> truthy (dict_get kvs2 ''request_id'' PNone) \<and> serializable result2 \<longrightarrow>
            session_iter py M (RecvData data2) s2 =
              (s2\<lparr>outbox := outbox s2 @ [Json result2]\<rparr>, Continue)"
    using ok by (intro impI) (elim conjE)
  from it hc ne ok' show ?thesis by (intro conjI) (elim conjE, assumption)+
qed

text \<open>
  The requests \<^verbatim>\<open>[]\<close>, \<^verbatim>\<open>{"method":"ids","request_id":"abc"}\<close> with a handler that
  returns a list, and \<^verbatim>\<open>{"method":"tags"}\<close> with a handler that returns a set.
\<close>

theorem server_error_ends_session_witness:
  \<open>session_iter py0 M0 (RecvData (ascii ''[]'')) sock0 =
     (sock0\<lparr>outbox := [Json (PDict [(''success'', PBool False),
         (''error'', PStr (''Server error: '' @ sq @ ''list'' @ sq @
            '' object has no attribute '' @ sq @ ''get'' @ sq))])]\<rparr>, Break) \<and>
   handle_client py0 M0 0 [RecvData (ascii ''[]'')] srv0 =
     Some (srv0\<lparr>socks := (socks srv0)
        (0 := \<lparr>closed = True, peer_gone = False,
               outbox = [Json (PDict [(''success'', PBool False),
                 (''error'', PStr (''Server error: '' @ sq @ ''list'' @ sq @
                    '' object has no attribute '' @ sq @ ''get'' @ sq))])]\<rparr>)\<rparr>) \<and>
   session_iter py0 M1 (RecvData (ascii ''{"method":"ids","request_id":"abc"}'')) sock0 =
     (sock0\<lparr>outbox := [Json (PDict [(''success'', PBool False),
         (''error'', PStr ''Server error: list indices must be integers or slices, not str'')])]\<rparr>,
      Break) \<and>
   session_iter py0 M1 (RecvData (ascii ''{"method":"tags"}'')) sock0 =
     (sock0\<lparr>outbox := [Json (PDict [(''success'', PBool False),
         (''error'', PStr ''Server error: Object of type set is not JSON serializable'')])]\<rparr>,
      Break)\<close>
proof -
  have nc: "\<not> closed sock0" by (simp add: sock0_def)
  have r: "running srv0 \<and> socks srv0 0 = sock0 \<and> 0 \<notin> set (client_sockets srv0)"
    by (simp add: srv0_def init_server_def)
  have d1: "decode_json py0 (ascii ''[]'') = Inr (PList [])"
    by (simp add: decode_json_def valid_utf8_def ascii_def py0_def sample_loads_def)
  have n1: "ascii ''[]'' \<noteq> []" by (simp add: ascii_def)
  have c1: "(\<forall>kvs. PList [] \<noteq> PDict kvs) \<and>
            sample_detail NoGetAttr (PList []) = py_detail py0 NoGetAttr (PList [])"
    by (simp add: py0_def)
  note t1 = server_error_ends_session [where M = M0 and st = srv0 and c = 0 and evs = "[]",
      OF n1 nc d1 disjI1 [OF c1] refl refl]
  have d2: \<open>decode_json py0 (ascii ''{"method":"ids","request_id":"abc"}'') =
             Inr (PDict [(''method'', PStr ''ids''), (''request_id'', PStr ''abc'')])\<close>
    by (simp add: decode_json_def valid_utf8_def ascii_def py0_def sample_loads_def)
  have n2: \<open>ascii ''{"method":"ids","request_id":"abc"}'' \<noteq> []\<close> by (simp add: ascii_def)
  have c2: "\<exists>kvs m h result rid.
      PDict [(''method'', PStr ''ids''), (''request_id'', PStr ''abc'')] = PDict kvs \<and>
      dict_get kvs ''method'' PNone = PStr m \<and> m \<noteq> [] \<and> M1 m = Some h \<and>
      call_handler py0 h (dict_get kvs ''args'' (PList [])) = Inr result \<and>
      rid = dict_get kvs ''request_id'' PNone \<and>
      (truthy rid \<and> (\<forall>r. result \<noteq> PDict r) \<and>
         ''list indices must be integers or slices, not str'' = py_detail py0 NoItemAssign result
       \<or> \<not> truthy rid \<and> \<not> serializable result \<and>
         ''list indices must be integers or slices, not str'' =
           py_detail py0 NotSerializable result
       \<or> truthy rid \<and>
         (\<exists>r. result = PDict r \<and>
              \<not> serializable (PDict (dict_set ''request_id'' rid r)) \<and>
              ''list indices must be integers or slices, not str'' =
                py_detail py0 NotSerializable (PDict (dict_set ''request_id'' rid r))))"
    by (simp add: dict_get_def M1_def py0_def)
  note t2 = server_error_ends_session [where M = M1, OF n2 nc d2 disjI2 [OF c2] refl refl]
  have d3: \<open>decode_json py0 (ascii ''{"method":"tags"}'') = Inr (PDict [(''method'', PStr ''tags'')])\<close>
    by (simp add: decode_json_def valid_utf8_def ascii_def py0_def sample_loads_def)
  have n3: \<open>ascii ''{"method":"tags"}'' \<noteq> []\<close> by (simp add: ascii_def)
  have c3: "\<exists>kvs m h result rid.
      PDict [(''method'', PStr ''tags'')] = PDict kvs \<and>
      dict_get kvs ''method'' PNone = PStr m \<and> m \<noteq> [] \<and> M1 m = Some h \<and>
      call_handler py0 h (dict_get kvs ''args'' (PList [])) = Inr result \<and>
      rid = dict_get kvs ''request_id'' PNone \<and>
      (truthy rid \<and> (\<forall>r. result \<noteq> PDict r) \<and>
         ''Object of type set is not JSON serializable'' = py_detail py0 NoItemAssign result
       \<or> \<not> truthy rid \<and> \<not> serializable result \<and>
         ''Object of type set is not JSON serializable'' = py_detail py0 NotSerializable result
       \<or> truthy rid \<and>
         (\<exists>r. result = PDict r \<and>
              \<not> serializable (PDict (dict_set ''request_id'' rid r)) \<and>
              ''Object of type set is not JSON serializable'' =
                py_detail py0 NotSerializable (PDict (dict_set ''request_id'' rid r))))"
    by (simp add: dict_get_def M1_def py0_def)
  note t3 = server_error_ends_session [where M = M1, OF n3 nc d3 disjI2 [OF c3] refl refl]
  have a: "writable sock0 \<and> outbox sock0 = [] \<and> \<not> peer_gone sock0"
    by (simp add: sock0_def writable_def)
  show ?thesis
    using t1 [THEN conjunct1] t1 [THEN conjunct2, THEN conjunct1]
      t2 [THEN conjunct1] t3 [THEN conjunct1] r nc a
    by (simp add: sq_def py0_def sock0_def)
qed

text \<open>
  C10 as stated fails on \<^verbatim>\<open>{"method":"ids"}\<close>: the handler returns a list, which
  cannot take a \<^verbatim>\<open>request_id\<close> key, but the request has no id, the list is
  written as the response and the session goes on.
\<close>

theorem list_result_without_id_counterexample:
  \<open>decode_json py0 (ascii ''{"method":"ids"}'') = Inr (PDict [(''method'', PStr ''ids'')]) \<and>
   call_handler py0 (the (M1 ''ids'')) (PList []) = Inr (PList []) \<and>
   py_setitem py0 (PList []) ''request_id'' (PStr ''abc'') =
     Inl (TypeError ''list indices must be integers or slices, not str'') \<and>
   session_iter py0 M1 (RecvData (ascii ''{"method":"ids"}'')) sock0 =
     (sock0\<lparr>outbox := [Json (PList [])]\<rparr>, Continue)\<close>
  by (simp add: decode_json_def valid_utf8_def ascii_def py0_def sample_loads_def
      session_iter_def process_request_def handle_request_def dict_get_def M1_def
      echo_request_id_def send_json_def json_dumps_def sendall_def sock0_def)

lemma handle_request_no_such_method:
  "truthy (dict_get kvs ''method'' PNone) \<Longrightarrow>
   methods_get py M (dict_get kvs ''method'' PNone) = Inr None \<Longrightarrow>
   handle_request py M (PDict kvs) =
     Inr (error_envelope
            (''No such method: '' @ sq @ py_str py (dict_get kvs ''method'' PNone) @ sq))"
  by (simp add: handle_request_def)

lemma session_iter_echo_envelope:
  assumes "data \<noteq> []" "writable s" "decode_json py data = Inr (PDict kvs)"
    and "serializable (PDict kvs)" and "truthy (dict_get kvs ''request_id'' PNone)"
    and "handle_request py M (PDict kvs) = Inr (error_envelope msg)"
  shows "session_iter py M (RecvData data) s =
           (s\<lparr>outbox := outbox s @
              [Json (PDict [(''success'', PBool False), (''error'', PStr msg),
                            (''request_id'', dict_get kvs ''request_id'' PNone)])]\<rparr>, Continue)"
proof -
  let ?reply = "PDict [(''success'', PBool False), (''error'', PStr msg),
                       (''request_id'', dict_get kvs ''request_id'' PNone)]"
  have echo: "echo_request_id py (dict_get kvs ''request_id'' PNone) (error_envelope msg) =
                Inr ?reply"
    using assms(5) by (simp add: echo_envelope)
  have "serializable (dict_get kvs ''request_id'' PNone)"
    using assms(4) by (simp add: serializable_dict_get)
  then have ser: "serializable ?reply" by simp
  show ?thesis by (rule session_iter_reply [OF assms(1,2,3,6) echo ser])
qed

text \<open>
  C2, as the code has it. For a request that is a JSON object with a truthy
  \<^verbatim>\<open>request_id\<close>, every response of the dispatcher is written with that id under
  \<^verbatim>\<open>request_id\<close>, unchanged: the envelope for a missing method, for an unknown
  method, for invalid arguments, for a failed method, and the dict a handler
  returns. When the id is not truthy, the session writes the dispatcher's
  response as it is and adds nothing. Whenever the body of the inner \<^verbatim>\<open>try\<close>
  raises, the envelope written is the one for invalid JSON or the one for a
  server error, with the two keys \<^verbatim>\<open>success\<close> and \<^verbatim>\<open>error\<close> only, whatever id
  the request had.
\<close>

theorem truthy_request_id_is_echoed:
  assumes "data \<noteq> []" and "writable s"
    and "decode_json py data = Inr (PDict kvs)" and "serializable (PDict kvs)"
    and "rid = dict_get kvs ''request_id'' PNone"
    and "method = dict_get kvs ''method'' PNone"
    and "args = dict_get kvs ''args'' (PList [])"
  shows "(truthy rid \<and> \<not> truthy method \<longrightarrow>
            session_iter py M (RecvData data) s =
              (s\<lparr>outbox := outbox s @
                 [Json (PDict [(''success'', PBool False),
                               (''error'', PStr ''No 'method' provided.''),
                               (''request_id'', rid)])]\<rparr>, Continue)) \<and>
         (truthy rid \<and> truthy method \<and> methods_get py M method = Inr None \<longrightarrow>
            session_iter py M (RecvData data) s =
              (s\<lparr>outbox := outbox s @
                 [Json (PDict [(''success'', PBool False),
                               (''error'', PStr (''No such method: '' @ sq @ py_str py method @ sq)),
                               (''request_id'', rid)])]\<rparr>, Continue)) \<and>
         (truthy rid \<and> method = PStr m \<and> m \<noteq> [] \<and> M m = Some h \<and>
          call_handler py h args = Inl (TypeError d) \<longrightarrow>
            session_iter py M (RecvData data) s =
              (s\<lparr>outbox := outbox s @
                 [Json (PDict [(''success'', PBool False),
                               (''error'', PStr (''Invalid arguments '' @ sq @ py_str py args @ sq
                                    @ '' for method '' @ sq @ m @ sq @ '': '' @ d)),
                               (''request_id'', rid)])]\<rparr>, Continue)) \<and>
         (truthy rid \<and> method = PStr m \<and> m \<noteq> [] \<and> M m = Some h \<and>
          call_handler py h args = Inl e \<and> (\<forall>d. e \<noteq> TypeError d) \<longrightarrow>
            session_iter py M (RecvData data) s =
              (s\<lparr>outbox := outbox s @
                 [Json (PDict [(''success'', PBool False),
                               (''error'', PStr (''Method '' @ sq @ m @ sq @ '' failed: ''
                                    @ str_exn e)),
                               (''request_id'', rid)])]\<rparr>, Continue)) \<and>
         (truthy rid \<and> method = PStr m \<and> m \<noteq> [] \<and> M m = Some h \<and>
          call_handler py h args = Inr (PDict r) \<and> serializable (PDict r) \<longrightarrow>
            session_iter py M (RecvData data) s =
              (s\<lparr>outbox := outbox s @ [Json (PDict (dict_set ''request_id'' rid r))]\<rparr>,
               Continue) \<and>
            map_of (dict_set ''request_id'' rid r) ''request_id'' = Some rid) \<and>
         (\<not> truthy rid \<and> handle_request py M (PDict kvs) = Inr response \<and>
          serializable response \<longrightarrow>
            session_iter py M (RecvData data) s =
              (s\<lparr>outbox := outbox s @ [Json response]\<rparr>, Continue)) \<and>
         (data2 \<noteq> [] \<and> process_request py M data2 s = Inl e2 \<longrightarrow>
            session_iter py M (RecvData data2) s =
              (s\<lparr>outbox := outbox s @
                 [Json (PDict [(''success'', PBool False),
                    (''error'', PStr (case e2 of JSONDecodeError d \<Rightarrow> ''Invalid JSON format''
                                      | _ \<Rightarrow> ''Server error: '' @ str_exn e2))])]\<rparr>, Break))"
proof -
  note base = assms(1,2,3,4)
  have c1: "session_iter py M (RecvData data) s =
              (s\<lparr>outbox := outbox s @
                 [Json (PDict [(''success'', PBool False),
                               (''error'', PStr ''No 'method' provided.''),
                               (''request_id'', rid)])]\<rparr>, Continue)"
    if k: "truthy rid" "\<not> truthy method"
  proof -
    have hr: "handle_request py M (PDict kvs) = Inr (error_envelope ''No 'method' provided.'')"
      using k(2) assms(6) by (simp add: handle_request_no_method)
    have tr: "truthy (dict_get kvs ''request_id'' PNone)" using k(1) assms(5) by simp
    show ?thesis using session_iter_echo_envelope [OF base tr hr] assms(5) by simp
  qed
  have c2: "session_iter py M (RecvData data) s =
              (s\<lparr>outbox := outbox s @
                 [Json (PDict [(''success'', PBool False),
                               (''error'', PStr (''No such method: '' @ sq @ py_str py method @ sq)),
                               (''request_id'', rid)])]\<rparr>, Continue)"
    if k: "truthy rid" "truthy method" "methods_get py M method = Inr None"
  proof -
    have hr: "handle_request py M (PDict kvs) =
                Inr (error_envelope (''No such method: '' @ sq @ py_str py method @ sq))"
      using k(2,3) assms(6) by (simp add: handle_request_no_such_method)
    have tr: "truthy (dict_get kvs ''request_id'' PNone)" using k(1) assms(5) by simp
    show ?thesis using session_iter_echo_envelope [OF base tr hr] assms(5) by simp
  qed
  have c3: "session_iter py M (RecvData data) s =
              (s\<lparr>outbox := outbox s @
                 [Json (PDict [(''success'', PBool False),
                               (''error'', PStr (''Invalid arguments '' @ sq @ py_str py args @ sq
                                    @ '' for method '' @ sq @ m @ sq @ '': '' @ d)),
                               (''request_id'', rid)])]\<rparr>, Continue)"
    if k: "truthy rid" "method = PStr m" "m \<noteq> []" "M m = Some h"
      "call_handler py h args = Inl (TypeError d)"
  proof -
    have hr: "handle_request py M (PDict kvs) =
                Inr (error_envelope (''Invalid arguments '' @ sq @ py_str py args @ sq
                                    @ '' for method '' @ sq @ m @ sq @ '': '' @ d))"
      using handle_request_found [of kvs m M h py] k(2-5) assms(6,7) by simp
    have tr: "truthy (dict_get kvs ''request_id'' PNone)" using k(1) assms(5) by simp
    show ?thesis using session_iter_echo_envelope [OF base tr hr] assms(5) by simp
  qed
  have c4: "session_iter py M (RecvData data) s =
              (s\<lparr>outbox := outbox s @
                 [Json (PDict [(''success'', PBool False),
                               (''error'', PStr (''Method '' @ sq @ m @ sq @ '' failed: ''
                                    @ str_exn e)),
                               (''request_id'', rid)])]\<rparr>, Continue)"
    if k: "truthy rid" "method = PStr m" "m \<noteq> []" "M m = Some h"
      "call_handler py h args = Inl e" "\<forall>d. e \<noteq> TypeError d"
  proof -
    have hr: "handle_request py M (PDict kvs) =
                Inr (error_envelope (''Method '' @ sq @ m @ sq @ '' failed: '' @ str_exn e))"
      using handle_request_found [of kvs m M h py] k(2-6) assms(6,7) by (cases e) simp_all
    have tr: "truthy (dict_get kvs ''request_id'' PNone)" using k(1) assms(5) by simp
    show ?thesis using session_iter_echo_envelope [OF base tr hr] assms(5) by simp
  qed
  have c5: "session_iter py M (RecvData data) s =
              (s\<lparr>outbox := outbox s @ [Json (PDict (dict_set ''request_id'' rid r))]\<rparr>,
               Continue) \<and>
            map_of (dict_set ''request_id'' rid r) ''request_id'' = Some rid"
    if k: "truthy rid" "method = PStr m" "m \<noteq> []" "M m = Some h"
      "call_handler py h args = Inr (PDict r)" "serializable (PDict r)"
  proof -
    have hr: "handle_request py M (PDict kvs) = Inr (PDict r)"
      using handle_request_found [of kvs m M h py] k(2-5) assms(6,7) by simp
    have echo: "echo_request_id py (dict_get kvs ''request_id'' PNone) (PDict r) =
                  Inr (PDict (dict_set ''request_id'' rid r))"
      using k(1) assms(5) by (simp add: echo_request_id_def)
    have "serializable rid" using assms(4,5) by (simp add: serializable_dict_get)
    then have ser: "serializable (PDict (dict_set ''request_id'' rid r))"
      using k(6) by (simp only: serializable_dict_set)
    show ?thesis
      using session_iter_reply [OF assms(1,2,3) hr echo ser] by (simp add: map_of_dict_set)
  qed
  have c6: "session_iter py M (RecvData data) s =
              (s\<lparr>outbox := outbox s @ [Json response]\<rparr>, Continue)"
    if k: "\<not> truthy rid" "handle_request py M (PDict kvs) = Inr response"
      "serializable response"
  proof -
    have echo: "echo_request_id py (dict_get kvs ''request_id'' PNone) response = Inr response"
      using k(1) assms(5) by (simp add: echo_request_id_def)
    show ?thesis by (rule session_iter_reply [OF assms(1,2,3) k(2) echo k(3)])
  qed
  have c7: "session_iter py M (RecvData data2) s =
              (s\<lparr>outbox := outbox s @
                 [Json (PDict [(''success'', PBool False),
                    (''error'', PStr (case e2 of JSONDecodeError d \<Rightarrow> ''Invalid JSON format''
                                      | _ \<Rightarrow> ''Server error: '' @ str_exn e2))])]\<rparr>, Break)"
    if k: "data2 \<noteq> []" "process_request py M data2 s = Inl e2"
    by (rule session_iter_process_error [OF k(1) assms(2) k(2)])
  show ?thesis
    apply (intro conjI impI)
    subgoal using c1 by (elim conjE)
    subgoal using c2 by (elim conjE)
    subgoal using c3 by (elim conjE)
    subgoal using c4 by (elim conjE)
    subgoal using c5 by (elim conjE) simp
    subgoal using c5 by (elim conjE) simp
    subgoal using c6 by (elim conjE)
    subgoal using c7 by (elim conjE)
    done
qed


text \<open>
  The id \<^verbatim>\<open>"abc"\<close> on each branch of the dispatcher: no method, the unknown method
  \<^verbatim>\<open>nope\<close>, \<^verbatim>\<open>list_updates\<close> with one argument, a handler that fails, and
  \<^verbatim>\<open>list_updates\<close> with none; then the id \<^verbatim>\<open>0\<close>, and a request whose method is a
  list.
\<close>

theorem truthy_request_id_is_echoed_witness:
  \<open>session_iter py0 M0 (RecvData (ascii ''{"request_id":"abc"}'')) sock0 =
     (sock0\<lparr>outbox :=
        [Json (PDict [(''success'', PBool False), (''error'', PStr ''No 'method' provided.''),
                      (''request_id'', PStr ''abc'')])]\<rparr>, Continue) \<and>
   session_iter py0 M0 (RecvData (ascii ''{"method":"nope","request_id":"abc"}'')) sock0 =
     (sock0\<lparr>outbox :=
        [Json (PDict [(''success'', PBool False),
                      (''error'', PStr (''No such method: '' @ sq @ ''nope'' @ sq)),
                      (''request_id'', PStr ''abc'')])]\<rparr>, Continue) \<and>
   session_iter py0 M0
     (RecvData (ascii ''{"method":"list_updates","args":[1],"request_id":"abc"}'')) sock0 =
     (sock0\<lparr>outbox :=
        [Json (PDict [(''success'', PBool False),
                      (''error'', PStr (''Invalid arguments '' @ sq @ ''[1]'' @ sq @
                         '' for method '' @ sq @ ''list_updates'' @ sq @
                         '': list_updates() takes 0 positional arguments but 1 was given'')),
                      (''request_id'', PStr ''abc'')])]\<rparr>, Continue) \<and>
   session_iter py0 M1 (RecvData (ascii ''{"method":"boom","request_id":"abc"}'')) sock0 =
     (sock0\<lparr>outbox :=
        [Json (PDict [(''success'', PBool False),
                      (''error'', PStr (''Method '' @ sq @ ''boom'' @ sq @
                         '' failed: pacman not found'')),
                      (''request_id'', PStr ''abc'')])]\<rparr>, Continue) \<and>
   session_iter py0 M0
     (RecvData (ascii ''{"method":"list_updates","args":[],"request_id":"abc"}'')) sock0 =
     (sock0\<lparr>outbox :=
        [Json (PDict [(''success'', PBool True),
                      (''updates'', PStr (''pkgA 1.0->1.1'' @ [CHR 0x0A])),
                      (''request_id'', PStr ''abc'')])]\<rparr>, Continue) \<and>
   session_iter py0 M0 (RecvData (ascii ''{"request_id":0}'')) sock0 =
     (sock0\<lparr>outbox :=
        [Json (PDict [(''success'', PBool False),
                      (''error'', PStr ''No 'method' provided.'')])]\<rparr>, Continue) \<and>
   session_iter py0 M0 (RecvData (ascii ''{"method":[1],"request_id":"abc"}'')) sock0 =
     (sock0\<lparr>outbox :=
        [Json (PDict [(''success'', PBool False),
                      (''error'', PStr (''Server error: unhashable type: '' @ sq @ ''list''
                                        @ sq))])]\<rparr>, Break)\<close>
proof -
  note w = sock0_writable
  have ob: "outbox sock0 = []" by (simp add: sock0_def)
  let ?h = "list_updates py0 (Exited []) (Exited (''pkgA 1.0->1.1'' @ [CHR 0x0A]))"
  have f0: "M0 ''list_updates'' = Some ?h" by (simp add: M0_def METHODS_def)
  let ?ka = "[(''request_id'', PStr ''abc'')]"
  have da: \<open>decode_json py0 (ascii ''{"request_id":"abc"}'') = Inr (PDict ?ka)\<close>
    by (simp add: decode_json_def valid_utf8_def ascii_def py0_def sample_loads_def)
  have na: \<open>ascii ''{"request_id":"abc"}'' \<noteq> []\<close> by (simp add: ascii_def)
  have sa: "serializable (PDict ?ka)" by simp
  note ta = truthy_request_id_is_echoed [where M = M0, OF na w da sa refl refl refl]
  have ra: \<open>session_iter py0 M0 (RecvData (ascii ''{"request_id":"abc"}'')) sock0 =
     (sock0\<lparr>outbox :=
        [Json (PDict [(''success'', PBool False), (''error'', PStr ''No 'method' provided.''),
                      (''request_id'', PStr ''abc'')])]\<rparr>, Continue)\<close>
    using ta [THEN conjunct1] by (simp add: dict_get_def ob)
  let ?kb = "[(''method'', PStr ''nope''), (''request_id'', PStr ''abc'')]"
  have db: \<open>decode_json py0 (ascii ''{"method":"nope","request_id":"abc"}'') = Inr (PDict ?kb)\<close>
    by (simp add: decode_json_def valid_utf8_def ascii_def py0_def sample_loads_def)
  have nb: \<open>ascii ''{"method":"nope","request_id":"abc"}'' \<noteq> []\<close> by (simp add: ascii_def)
  have sb: "serializable (PDict ?kb)" by simp
  note tb = truthy_request_id_is_echoed [where M = M0, OF nb w db sb refl refl refl]
  have rb: \<open>session_iter py0 M0 (RecvData (ascii ''{"method":"nope","request_id":"abc"}'')) sock0 =
     (sock0\<lparr>outbox :=
        [Json (PDict [(''success'', PBool False),
                      (''error'', PStr (''No such method: '' @ sq @ ''nope'' @ sq)),
                      (''request_id'', PStr ''abc'')])]\<rparr>, Continue)\<close>
    using tb [THEN conjunct2, THEN conjunct1]
    by (simp add: dict_get_def ob M0_def METHODS_def)
  let ?kc = "[(''method'', PStr ''list_updates''), (''args'', PList [PInt 1]),
              (''request_id'', PStr ''abc'')]"
  have dc: \<open>decode_json py0 (ascii ''{"method":"list_updates","args":[1],"request_id":"abc"}'') =
             Inr (PDict ?kc)\<close>
    by (simp add: decode_json_def valid_utf8_def ascii_def py0_def sample_loads_def)
  have nc: \<open>ascii ''{"method":"list_updates","args":[1],"request_id":"abc"}'' \<noteq> []\<close>
    by (simp add: ascii_def)
  have sc: "serializable (PDict ?kc)" by simp
  have cc: "call_handler py0 ?h (PList [PInt 1]) =
              Inl (TypeError ''list_updates() takes 0 positional arguments but 1 was given'')"
    by (simp add: list_updates_def py0_def)
  note tc = truthy_request_id_is_echoed [where M = M0 and m = "''list_updates''" and h = ?h
      and d = "''list_updates() takes 0 positional arguments but 1 was given''",
      OF nc w dc sc refl refl refl]
  have rc: \<open>session_iter py0 M0
     (RecvData (ascii ''{"method":"list_updates","args":[1],"request_id":"abc"}'')) sock0 =
     (sock0\<lparr>outbox :=
        [Json (PDict [(''success'', PBool False),
                      (''error'', PStr (''Invalid arguments '' @ sq @ ''[1]'' @ sq @
                         '' for method '' @ sq @ ''list_updates'' @ sq @
                         '': list_updates() takes 0 positional arguments but 1 was given'')),
                      (''request_id'', PStr ''abc'')])]\<rparr>, Continue)\<close>
    using tc [THEN conjunct2, THEN conjunct2, THEN conjunct1] f0 cc
    by (simp add: dict_get_def ob py0_def sample_repr_def)
  let ?kd = "[(''method'', PStr ''boom''), (''request_id'', PStr ''abc'')]"
  let ?hd = "(\<lambda>args. Inl (OtherException ''pacman not found'')) :: handler"
  have dd: \<open>decode_json py0 (ascii ''{"method":"boom","request_id":"abc"}'') = Inr (PDict ?kd)\<close>
    by (simp add: decode_json_def valid_utf8_def ascii_def py0_def sample_loads_def)
  have nd: \<open>ascii ''{"method":"boom","request_id":"abc"}'' \<noteq> []\<close> by (simp add: ascii_def)
  have sd: "serializable (PDict ?kd)" by simp
  have fd: "M1 ''boom'' = Some ?hd" by (simp add: M1_def)
  note td = truthy_request_id_is_echoed [where M = M1 and m = "''boom''" and h = ?hd
      and e = "OtherException ''pacman not found''", OF nd w dd sd refl refl refl]
  have rd: \<open>session_iter py0 M1 (RecvData (ascii ''{"method":"boom","request_id":"abc"}'')) sock0 =
     (sock0\<lparr>outbox :=
        [Json (PDict [(''success'', PBool False),
                      (''error'', PStr (''Method '' @ sq @ ''boom'' @ sq @
                         '' failed: pacman not found'')),
                      (''request_id'', PStr ''abc'')])]\<rparr>, Continue)\<close>
    using td [THEN conjunct2, THEN conjunct2, THEN conjunct2, THEN conjunct1] fd
    by (simp add: dict_get_def ob)
  let ?ke = "[(''method'', PStr ''list_updates''), (''args'', PList []),
              (''request_id'', PStr ''abc'')]"
  let ?re = "[(''success'', PBool True), (''updates'', PStr (''pkgA 1.0->1.1'' @ [CHR 0x0A]))]"
  have de: \<open>decode_json py0 (ascii ''{"method":"list_updates","args":[],"request_id":"abc"}'') =
             Inr (PDict ?ke)\<close>
    by (simp add: decode_json_def valid_utf8_def ascii_def py0_def sample_loads_def)
  have ne: \<open>ascii ''{"method":"list_updates","args":[],"request_id":"abc"}'' \<noteq> []\<close>
    by (simp add: ascii_def)
  have se: "serializable (PDict ?ke)" by simp
  have ce: "call_handler py0 ?h (PList []) = Inr (PDict ?re)"
    by (simp add: list_updates_def)
  note te = truthy_request_id_is_echoed [where M = M0 and m = "''list_updates''" and h = ?h
      and r = ?re, OF ne w de se refl refl refl]
  have re: \<open>session_iter py0 M0
     (RecvData (ascii ''{"method":"list_updates","args":[],"request_id":"abc"}'')) sock0 =
     (sock0\<lparr>outbox :=
        [Json (PDict [(''success'', PBool True),
                      (''updates'', PStr (''pkgA 1.0->1.1'' @ [CHR 0x0A])),
                      (''request_id'', PStr ''abc'')])]\<rparr>, Continue)\<close>
    using te [THEN conjunct2, THEN conjunct2, THEN conjunct2, THEN conjunct2, THEN conjunct1]
      f0 ce
    by (simp add: dict_get_def ob)
  let ?kf = "[(''request_id'', PInt 0)]"
  have df: \<open>decode_json py0 (ascii ''{"request_id":0}'') = Inr (PDict ?kf)\<close>
    by (simp add: decode_json_def valid_utf8_def ascii_def py0_def sample_loads_def)
  have nf: \<open>ascii ''{"request_id":0}'' \<noteq> []\<close> by (simp add: ascii_def)
  have sf: "serializable (PDict ?kf)" by simp
  have hf: "handle_request py0 M0 (PDict ?kf) =
              Inr (PDict [(''success'', PBool False), (''error'', PStr ''No 'method' provided.'')])"
    by (simp add: handle_request_def dict_get_def error_envelope_def)
  note tf = truthy_request_id_is_echoed [where M = M0
      and response = "PDict [(''success'', PBool False),
                             (''error'', PStr ''No 'method' provided.'')]"
      and ?data2.0 = \<open>ascii ''{"method":[1],"request_id":"abc"}''\<close>
      and ?e2.0 = "TypeError (''unhashable type: '' @ sq @ ''list'' @ sq)",
      OF nf w df sf refl refl refl]
  have rf: \<open>session_iter py0 M0 (RecvData (ascii ''{"request_id":0}'')) sock0 =
     (sock0\<lparr>outbox :=
        [Json (PDict [(''success'', PBool False),
                      (''error'', PStr ''No 'method' provided.'')])]\<rparr>, Continue)\<close>
    using tf [THEN conjunct2, THEN conjunct2, THEN conjunct2, THEN conjunct2, THEN conjunct2,
        THEN conjunct1] hf
    by (simp add: dict_get_def ob)
  have ng: \<open>ascii ''{"method":[1],"request_id":"abc"}'' \<noteq> []\<close> by (simp add: ascii_def)
  have pg: \<open>process_request py0 M0 (ascii ''{"method":[1],"request_id":"abc"}'') sock0 =
             Inl (TypeError (''unhashable type: '' @ sq @ ''list'' @ sq))\<close>
    by (simp add: process_request_def decode_json_def valid_utf8_def ascii_def py0_def
        sample_loads_def handle_request_def dict_get_def)
  have rg: \<open>session_iter py0 M0 (RecvData (ascii ''{"method":[1],"request_id":"abc"}'')) sock0 =
     (sock0\<lparr>outbox :=
        [Json (PDict [(''success'', PBool False),
                      (''error'', PStr (''Server error: unhashable type: '' @ sq @ ''list''
                                        @ sq))])]\<rparr>, Break)\<close>
    using tf [THEN conjunct2, THEN conjunct2, THEN conjunct2, THEN conjunct2, THEN conjunct2,
        THEN conjunct2] ng pg
    by (simp add: ob)
  from ra rb rc rd re rf rg show ?thesis by (intro conjI)
qed

text \<open>
  C2 as stated fails twice. The id \<^verbatim>\<open>0\<close> is not echoed, on a failure branch
  as on the success branch. And the envelope of the server-error branch is
  built afresh in line 138: the id \<^verbatim>\<open>"abc"\<close> of a request whose method is a list
  is not in it.
\<close>

theorem request_id_not_echoed_counterexample:
  \<open>decode_json py0 (ascii ''{"request_id":0}'') = Inr (PDict [(''request_id'', PInt 0)]) \<and>
   session_iter py0 M0 (RecvData (ascii ''{"request_id":0}'')) sock0 =
     (sock0\<lparr>outbox := [Json (PDict [(''success'', PBool False),
                                     (''error'', PStr ''No 'method' provided.'')])]\<rparr>, Continue) \<and>
   decode_json py0 (ascii ''{"method":[1],"request_id":"abc"}'') =
     Inr (PDict [(''method'', PList [PInt 1]), (''request_id'', PStr ''abc'')]) \<and>
   session_iter py0 M0 (RecvData (ascii ''{"method":[1],"request_id":"abc"}'')) sock0 =
     (sock0\<lparr>outbox := [Json (PDict [(''success'', PBool False),
          (''error'', PStr (''Server error: unhashable type: '' @ sq @ ''list'' @ sq))])]\<rparr>, Break)\<close>
  by (simp add: decode_json_def valid_utf8_def ascii_def py0_def sample_loads_def
      session_iter_def process_request_def handle_request_def dict_get_def error_envelope_def
      echo_request_id_def send_json_def json_dumps_def sendall_def sock0_def)

end
